theory Spec2Isabelle
  imports Complex_Main "HOL-Library.Log_Nat"
begin

section \<open>The number type of the source\<close>

text \<open>
  Every amount of the source is a TypeScript \<open>number\<close>: an IEEE 754 double. A finite
  double is modelled by the rational it denotes, the other values by constructors of
  their own. The two zeros of IEEE 754 are one value here (\<open>Fin 0\<close>); the source never
  divides by a variable, so no result of the code depends on the sign of a zero.
\<close>

datatype number = NaN | PosInf | NegInf | Fin rat

text \<open>\<open>pow2 e\<close> is \<open>2\<close> to the power \<open>e\<close>, for any integer \<open>e\<close>.\<close>

definition pow2 :: "int \<Rightarrow> rat" where
  "pow2 e = (if 0 \<le> e then 2 ^ nat e else 1 / 2 ^ nat (- e))"

text \<open>
  \<open>ilog2 q\<close>, for \<open>q > 0\<close>, is the binary exponent of \<open>q\<close>: the \<open>e\<close> with
  \<open>2^e \<le> q < 2^(e+1)\<close>. It is read off the bit lengths of numerator and denominator.
\<close>

definition ilog2 :: "rat \<Rightarrow> int" where
  "ilog2 q = (let k = bitlen (fst (quotient_of q)) - bitlen (snd (quotient_of q))
              in if pow2 k \<le> q then k else k - 1)"

text \<open>Rounding to the nearest integer, a tie going to the even neighbour.\<close>

definition round_even :: "rat \<Rightarrow> int" where
  "round_even x = (let f = \<lfloor>x\<rfloor>; d = x - of_int f
                   in if d < 1 / 2 then f
                      else if 1 / 2 < d then f + 1
                      else if even f then f else f + 1)"

text \<open>
  \<open>fl q\<close> is the double that an arithmetic operation with exact result \<open>q\<close> returns
  (round to nearest, ties to even): 53 significant bits, the exponent no smaller than
  \<open>-1022\<close> (below it the doubles are the subnormal multiples of \<open>2^-1074\<close>), and an
  infinity once the rounded magnitude reaches \<open>2^1024\<close>.
\<close>

definition fl :: "rat \<Rightarrow> number" where
  "fl q = (if q = 0 then Fin 0
           else let e = max (ilog2 \<bar>q\<bar>) (- 1022);
                    ulp = pow2 (e - 52);
                    r = of_int (round_even (q / ulp)) * ulp
                in if 2 ^ 1024 \<le> \<bar>r\<bar> then (if 0 < q then PosInf else NegInf)
                   else Fin r)"

text \<open>A \<open>number\<close> of the model is a double when rounding leaves it as it is.\<close>

definition is_double :: "number \<Rightarrow> bool" where
  "is_double x = (case x of Fin q \<Rightarrow> fl q = Fin q | _ \<Rightarrow> True)"

text \<open>The operators \<open>*\<close>, \<open>/\<close> and \<open>+\<close> of the source, and \<open>isNaN\<close>.\<close>

fun mul :: "number \<Rightarrow> number \<Rightarrow> number" where
  "mul NaN _ = NaN"
| "mul _ NaN = NaN"
| "mul (Fin a) (Fin b) = fl (a * b)"
| "mul (Fin a) PosInf = (if a = 0 then NaN else if 0 < a then PosInf else NegInf)"
| "mul (Fin a) NegInf = (if a = 0 then NaN else if 0 < a then NegInf else PosInf)"
| "mul PosInf (Fin b) = (if b = 0 then NaN else if 0 < b then PosInf else NegInf)"
| "mul NegInf (Fin b) = (if b = 0 then NaN else if 0 < b then NegInf else PosInf)"
| "mul PosInf PosInf = PosInf"
| "mul PosInf NegInf = NegInf"
| "mul NegInf PosInf = NegInf"
| "mul NegInf NegInf = PosInf"

fun divide_num :: "number \<Rightarrow> number \<Rightarrow> number" where
  "divide_num NaN _ = NaN"
| "divide_num _ NaN = NaN"
| "divide_num (Fin a) (Fin b) =
     (if b = 0 then (if a = 0 then NaN else if 0 < a then PosInf else NegInf)
      else fl (a / b))"
| "divide_num (Fin a) PosInf = Fin 0"
| "divide_num (Fin a) NegInf = Fin 0"
| "divide_num PosInf (Fin b) = (if 0 \<le> b then PosInf else NegInf)"
| "divide_num NegInf (Fin b) = (if 0 \<le> b then NegInf else PosInf)"
| "divide_num PosInf PosInf = NaN"
| "divide_num PosInf NegInf = NaN"
| "divide_num NegInf PosInf = NaN"
| "divide_num NegInf NegInf = NaN"

fun add :: "number \<Rightarrow> number \<Rightarrow> number" where
  "add NaN _ = NaN"
| "add _ NaN = NaN"
| "add (Fin a) (Fin b) = fl (a + b)"
| "add (Fin a) PosInf = PosInf"
| "add (Fin a) NegInf = NegInf"
| "add PosInf (Fin b) = PosInf"
| "add NegInf (Fin b) = NegInf"
| "add PosInf PosInf = PosInf"
| "add PosInf NegInf = NaN"
| "add NegInf PosInf = NaN"
| "add NegInf NegInf = NegInf"

definition isNaN :: "number \<Rightarrow> bool" where
  "isNaN x = (x = NaN)"

section \<open>Pricing: \<open>getTotalPrice\<close> of transaction-utils.ts\<close>

definition TENSOR_FEE_BPS :: number where
  "TENSOR_FEE_BPS = Fin 150"

text \<open>
  The parameter \<open>tokenStandard: string | null\<close> is used as a condition only. \<open>None\<close>
  stands for \<open>null\<close> and for \<open>undefined\<close> (an argument left out); the empty string is
  falsy as well.
\<close>

definition truthy :: "string option \<Rightarrow> bool" where
  "truthy tokenStandard = (case tokenStandard of None \<Rightarrow> False | Some s \<Rightarrow> s \<noteq> [])"

text \<open>The two local constants of \<open>getTotalPrice\<close>, then the function.\<close>

definition marketPlaceFee :: "number \<Rightarrow> number" where
  "marketPlaceFee price = divide_num (mul price TENSOR_FEE_BPS) (Fin 10000)"

definition royalty :: "number \<Rightarrow> number \<Rightarrow> string option \<Rightarrow> number" where
  "royalty price royaltyBps tokenStandard =
     (if truthy tokenStandard then divide_num (mul price royaltyBps) (Fin 10000) else Fin 0)"

definition getTotalPrice :: "number \<Rightarrow> number \<Rightarrow> string option \<Rightarrow> number" where
  "getTotalPrice price royaltyBps tokenStandard =
     add (add price (royalty price royaltyBps tokenStandard)) (marketPlaceFee price)"


section \<open>The built-in functions \<open>parseInt\<close> and \<open>parseFloat\<close>\<close>

text \<open>
  A string that the code parses is the list of its UTF-16 code units, which is what the
  two functions look at; \<open>str\<close> gives the code units of an ASCII literal. Both functions
  skip leading white space, read the longest prefix that is a numeral and ignore the
  rest; with no such prefix the result is \<open>NaN\<close>. White space is what ECMAScript calls
  \<open>WhiteSpace\<close> and \<open>LineTerminator\<close>: tab, line feed, vertical tab, form feed, carriage
  return, space, no-break space, the other space separators of Unicode, the line and
  paragraph separators, and the byte order mark.
\<close>

type_synonym jsstring = "nat list"

definition str :: "string \<Rightarrow> jsstring" where
  "str s = map of_char s"

definition isWhiteSpace :: "nat \<Rightarrow> bool" where
  "isWhiteSpace c =
     (c \<in> set [0x09, 0x0A, 0x0B, 0x0C, 0x0D, 0x20, 0xA0, 0x1680, 0x2028, 0x2029, 0x202F,
                0x205F, 0x3000, 0xFEFF]
      \<or> (0x2000 \<le> c \<and> c \<le> 0x200A))"

definition isDigit :: "nat \<Rightarrow> bool" where
  "isDigit c = (48 \<le> c \<and> c \<le> 57)"

definition digitsValue :: "jsstring \<Rightarrow> int" where
  "digitsValue ds = foldl (\<lambda>acc c. 10 * acc + (int c - 48)) 0 ds"

text \<open>
  An optional sign (\<open>-\<close> is the code unit 45, \<open>+\<close> is 43): whether it is a minus, and the
  rest of the string.
\<close>

definition stripSign :: "jsstring \<Rightarrow> bool \<times> jsstring" where
  "stripSign t = (case t of
       [] \<Rightarrow> (False, [])
     | c # r \<Rightarrow> if c = 45 then (True, r)
                else if c = 43 then (False, r)
                else (False, t))"

text \<open>\<open>parseInt(s, 10)\<close>.\<close>

definition parseInt :: "jsstring \<Rightarrow> number" where
  "parseInt s =
     (let (neg, u) = stripSign (dropWhile isWhiteSpace s);
          ds = takeWhile isDigit u
      in if ds = [] then NaN
         else fl ((if neg then - 1 else 1) * of_int (digitsValue ds)))"

text \<open>
  The exponent part of a decimal literal, read from what follows the mantissa: \<open>e\<close> (101)
  or \<open>E\<close> (69), an optional sign and at least one digit; anything else is no exponent
  part.
\<close>

definition exponentPart :: "jsstring \<Rightarrow> int" where
  "exponentPart r = (case r of
       [] \<Rightarrow> 0
     | c # r' \<Rightarrow>
         if c = 101 \<or> c = 69
         then (let (neg, u) = stripSign r'; ds = takeWhile isDigit u
               in if ds = [] then 0
                  else (if neg then - 1 else 1) * digitsValue ds)
         else 0)"

definition pow10 :: "int \<Rightarrow> rat" where
  "pow10 e = (if 0 \<le> e then 10 ^ nat e else 1 / 10 ^ nat (- e))"

text \<open>\<open>parseFloat(s)\<close>; the decimal point is the code unit 46.\<close>

definition parseFloat :: "jsstring \<Rightarrow> number" where
  "parseFloat s =
     (let (neg, u) = stripSign (dropWhile isWhiteSpace s)
      in if take 8 u = str ''Infinity'' then (if neg then NegInf else PosInf)
         else
           let ip = takeWhile isDigit u;
               r1 = dropWhile isDigit u;
               hasPoint = (r1 \<noteq> [] \<and> hd r1 = 46);
               fp = (if hasPoint then takeWhile isDigit (tl r1) else []);
               r2 = (if hasPoint then dropWhile isDigit (tl r1) else r1)
           in if ip = [] \<and> fp = [] then NaN
              else fl ((if neg then - 1 else 1)
                       * (of_int (digitsValue (ip @ fp)) / 10 ^ length fp)
                       * pow10 (exponentPart r2)))"

section \<open>Collaborators outside the repository's sources\<close>

text \<open>
  \<open>LAMPORTS_PER_SOL\<close> is a constant of the library @solana/web3.js: one thousand
  million.
\<close>

definition LAMPORTS_PER_SOL :: number where
  "LAMPORTS_PER_SOL = Fin 1000000000"

datatype error =
    InvalidAccount            \<comment> \<open>the error thrown by \<open>new PublicKey(s)\<close> on a malformed \<open>s\<close>\<close>
  | InvalidAmount             \<comment> \<open>the error thrown by \<open>SystemProgram.transfer\<close> on an amount it cannot encode\<close>
  | BlockhashUnavailable      \<comment> \<open>\<open>connection.getLatestBlockhash\<close> rejects\<close>
  | ItemOrListingNotFound     \<comment> \<open>\<open>Error('Item details or listing not found')\<close>\<close>
  | ApiFailure                \<comment> \<open>a call of the marketplace API rejects\<close>

datatype PublicKey = PublicKey (toBytes: "nat list")

record TransferParams =
  fromPubkey :: PublicKey
  toPubkey :: PublicKey
  lamports :: number

text \<open>
  The single instruction the builder creates is the System Program's transfer, which is
  determined by its parameters. \<open>SystemProgram.transfer\<close> encodes them and throws on
  an amount that it cannot encode.
\<close>

datatype TransactionInstruction = SystemTransfer TransferParams

text \<open>
  The two library functions the builder calls are parameters of the model: the
  constructor \<open>new PublicKey(s)\<close>, \<open>None\<close> where it throws, and whether
  \<open>SystemProgram.transfer(params)\<close> throws. The library as published is the instance
  \<open>sample_web3\<close> further down.
\<close>

record web3 =
  newPublicKey :: "string \<Rightarrow> PublicKey option"
  transferThrows :: "TransferParams \<Rightarrow> bool"

definition SystemProgram_transfer :: "web3 \<Rightarrow> TransferParams \<Rightarrow> TransactionInstruction option" where
  "SystemProgram_transfer lib params =
     (if transferThrows lib params then None else Some (SystemTransfer params))"

text \<open>
  The network: a \<open>Connection\<close> is the list of answers that the node gives to the
  successive calls of \<open>getLatestBlockhash\<close>, \<open>None\<close> for a call that fails. Each call
  consumes one answer.
\<close>

record BlockhashWithExpiryBlockHeight =
  blockhash :: string
  lastValidBlockHeight :: nat

type_synonym Connection = "BlockhashWithExpiryBlockHeight option list"

fun getLatestBlockhash ::
  "Connection \<Rightarrow> (error + BlockhashWithExpiryBlockHeight) \<times> Connection" where
  "getLatestBlockhash [] = (Inl BlockhashUnavailable, [])"
| "getLatestBlockhash (None # rest) = (Inl BlockhashUnavailable, rest)"
| "getLatestBlockhash (Some r # rest) = (Inr r, rest)"

section \<open>The transfer builder (src/unnamed/part_000)\<close>

text \<open>
  A \<open>VersionedTransaction\<close> is modelled by the three fields of the
  \<open>TransactionMessage\<close> it is compiled from; it carries no signature.
\<close>

record VersionedTransaction =
  payerKey :: PublicKey
  recentBlockhash :: string
  instructions :: "TransactionInstruction list"

definition prepareTransaction ::
  "Connection \<Rightarrow> TransactionInstruction list \<Rightarrow> PublicKey
     \<Rightarrow> (error + VersionedTransaction) \<times> Connection" where
  "prepareTransaction connection instrs payer =
     (case getLatestBlockhash connection of
        (Inl e, connection') \<Rightarrow> (Inl e, connection')
      | (Inr res, connection') \<Rightarrow>
          (Inr \<lparr>payerKey = payer, recentBlockhash = blockhash res, instructions = instrs\<rparr>,
           connection'))"

text \<open>
  \<open>createBuyNftTransaction(mint, buyer, price)\<close> of part_000; the name is used again in
  transaction-utils.ts, hence the suffix. Both keys are built first, then the single
  transfer instruction, of \<open>price * LAMPORTS_PER_SOL\<close> lamports, then the transaction.
\<close>

definition createBuyNftTransaction_transfer ::
  "web3 \<Rightarrow> Connection \<Rightarrow> string \<Rightarrow> string \<Rightarrow> number
     \<Rightarrow> (error + VersionedTransaction) \<times> Connection" where
  "createBuyNftTransaction_transfer lib connection mint buyer price =
     (case newPublicKey lib buyer of
        None \<Rightarrow> (Inl InvalidAccount, connection)
      | Some payer \<Rightarrow>
         (case newPublicKey lib mint of
            None \<Rightarrow> (Inl InvalidAccount, connection)
          | Some recipient \<Rightarrow>
             (case SystemProgram_transfer lib
                     \<lparr>fromPubkey = payer, toPubkey = recipient,
                      lamports = mul price LAMPORTS_PER_SOL\<rparr> of
                None \<Rightarrow> (Inl InvalidAmount, connection)
              | Some instruction \<Rightarrow> prepareTransaction connection [instruction] payer)))"

text \<open>
  \<open>createBidNftTransaction(mint, bidder, amount)\<close>: the same, with a transfer of
  \<open>amount\<close> lamports.
\<close>

definition createBidNftTransaction ::
  "web3 \<Rightarrow> Connection \<Rightarrow> string \<Rightarrow> string \<Rightarrow> number
     \<Rightarrow> (error + VersionedTransaction) \<times> Connection" where
  "createBidNftTransaction lib connection mint bidder amount =
     (case newPublicKey lib bidder of
        None \<Rightarrow> (Inl InvalidAccount, connection)
      | Some payer \<Rightarrow>
         (case newPublicKey lib mint of
            None \<Rightarrow> (Inl InvalidAccount, connection)
          | Some recipient \<Rightarrow>
             (case SystemProgram_transfer lib
                     \<lparr>fromPubkey = payer, toPubkey = recipient, lamports = amount\<rparr> of
                None \<Rightarrow> (Inl InvalidAmount, connection)
              | Some instruction \<Rightarrow> prepareTransaction connection [instruction] payer)))"

section \<open>The marketplace API (api/tensor-api, not among the sources)\<close>

text \<open>
  The data the API returns and the requests it takes. The field \<open>listingPrice\<close> is the
  source's \<open>listing.price\<close>, a decimal string; \<open>orderPrice\<close> is the field \<open>price\<close> of
  both request objects.
\<close>

record Listing =
  listingPrice :: jsstring
  seller :: string

record ItemDetails =
  onchainId :: string
  owner :: string
  listing :: "Listing option"
  sellRoyaltyFeeBPS :: number

record OrderRequest =
  ownerAddress :: string
  buyerAddress :: string
  orderPrice :: number
  latestBlockhash :: string

record BuyRequest = OrderRequest +
  mintAddress :: string

record BidRequest = OrderRequest +
  targetID :: string

text \<open>
  The three functions of the API that the sources call are parameters of the model. A
  result \<open>Inl e\<close> is a rejected promise, \<open>Inr None\<close> the value \<open>null\<close>.
\<close>

record tensor_api =
  getNftInfo :: "string \<Rightarrow> error + ItemDetails option"
  getNftBuyTransaction :: "BuyRequest \<Rightarrow> error + string option"
  placeNftBid :: "BidRequest \<Rightarrow> error + string option"

section \<open>The buy flow: \<open>createBuyNftTransaction\<close> of transaction-utils.ts\<close>

text \<open>
  The blockhash is fetched first, then the item; the total is computed by a call of
  \<open>getTotalPrice\<close> with two arguments, so its third parameter is \<open>undefined\<close>. An error
  caught by the function is thrown again.
\<close>

definition createBuyNftTransaction ::
  "tensor_api \<Rightarrow> Connection \<Rightarrow> string \<Rightarrow> string \<Rightarrow> (error + string option) \<times> Connection" where
  "createBuyNftTransaction api connection mint buyer =
     (case getLatestBlockhash connection of
        (Inl e, connection') \<Rightarrow> (Inl e, connection')
      | (Inr res, connection') \<Rightarrow>
         (case getNftInfo api mint of
            Inl e \<Rightarrow> (Inl e, connection')
          | Inr None \<Rightarrow> (Inl ItemOrListingNotFound, connection')
          | Inr (Some itemDetails) \<Rightarrow>
             (case listing itemDetails of
                None \<Rightarrow> (Inl ItemOrListingNotFound, connection')
              | Some l \<Rightarrow>
                 (let totalPrice = getTotalPrice (parseInt (listingPrice l))
                                     (sellRoyaltyFeeBPS itemDetails) None
                  in (getNftBuyTransaction api
                        \<lparr>ownerAddress = seller l, buyerAddress = buyer,
                         orderPrice = totalPrice, latestBlockhash = blockhash res,
                         mintAddress = mint\<rparr>,
                      connection')))))"

section \<open>The offer flow: \<open>POST /item/{itemId}/offer/{offerAmount}\<close> of route.ts\<close>

text \<open>
  A response is either an \<open>ActionError\<close> with its HTTP status and message, or the
  \<open>ActionPostResponse\<close> (status 200) carrying the transaction. The request body is the
  account it names, \<open>None\<close> when reading it throws. Whatever is thrown inside the
  handler's \<open>try\<close> block becomes the response 500, and so does a transaction that is
  \<open>null\<close> or the empty string (the test is \<open>!transaction\<close>).
\<close>

datatype Response = ActionError nat string | ActionPostResponse string

definition failedToPrepare :: Response where
  "failedToPrepare = ActionError 500 ''Failed to prepare transaction''"

definition postOffer ::
  "tensor_api \<Rightarrow> Connection \<Rightarrow> string \<Rightarrow> jsstring \<Rightarrow> string option
     \<Rightarrow> Response \<times> Connection" where
  "postOffer api connection itemId offerAmountParam body =
     (if itemId = [] then (ActionError 400 ''Item ID is required'', connection)
      else if offerAmountParam = [] \<or> isNaN (parseFloat offerAmountParam)
      then (ActionError 400 ''Offer amount is not a valid number'', connection)
      else
        (let offerAmount = parseFloat offerAmountParam
         in case body of
              None \<Rightarrow> (failedToPrepare, connection)
            | Some account \<Rightarrow>
               (case getNftInfo api itemId of
                  Inl e \<Rightarrow> (failedToPrepare, connection)
                | Inr None \<Rightarrow>
                    (ActionError 422 (''Item '' @ itemId @ '' not found''), connection)
                | Inr (Some itemDetails) \<Rightarrow>
                   (case getLatestBlockhash connection of
                      (Inl e, connection') \<Rightarrow> (failedToPrepare, connection')
                    | (Inr res, connection') \<Rightarrow>
                       (let priceInLamports = mul offerAmount LAMPORTS_PER_SOL
                        in if isNaN priceInLamports then (failedToPrepare, connection')
                           else
                             (case placeNftBid api
                                     \<lparr>ownerAddress = owner itemDetails,
                                      buyerAddress = account,
                                      orderPrice = priceInLamports,
                                      latestBlockhash = blockhash res,
                                      targetID = onchainId itemDetails\<rparr> of
                                Inl e \<Rightarrow> (failedToPrepare, connection')
                              | Inr None \<Rightarrow> (failedToPrepare, connection')
                              | Inr (Some transaction) \<Rightarrow>
                                  if transaction = [] then (failedToPrepare, connection')
                                  else (ActionPostResponse transaction, connection')))))))"

section \<open>Predicates on numbers, the library as published, and sample collaborators\<close>

text \<open>
  A number that is not negative, a number that is an integer, and a number that fits an
  unsigned integer of 64 bits.
\<close>

definition nonneg :: "number \<Rightarrow> bool" where
  "nonneg x = (case x of Fin q \<Rightarrow> 0 \<le> q | PosInf \<Rightarrow> True | _ \<Rightarrow> False)"

definition isInteger :: "number \<Rightarrow> bool" where
  "isInteger x = (case x of Fin q \<Rightarrow> of_int \<lfloor>q\<rfloor> = q | _ \<Rightarrow> False)"

definition isU64 :: "number \<Rightarrow> bool" where
  "isU64 x = (case x of Fin q \<Rightarrow> of_int \<lfloor>q\<rfloor> = q \<and> 0 \<le> q \<and> q < 2 ^ 64 | _ \<Rightarrow> False)"

text \<open>
  Base 58, the encoding of addresses: the digits of a number in base 58, each leading
  \<open>1\<close> standing for one leading zero byte.
\<close>

definition base58Alphabet :: string where
  "base58Alphabet = ''123456789ABCDEFGHJKLMNPQRSTUVWXYZabcdefghijkmnopqrstuvwxyz''"

fun indexOf :: "'a \<Rightarrow> 'a list \<Rightarrow> nat option" where
  "indexOf c [] = None"
| "indexOf c (x # xs) = (if c = x then Some 0 else map_option Suc (indexOf c xs))"

definition base58Digit :: "char \<Rightarrow> nat" where
  "base58Digit c = (case indexOf c base58Alphabet of Some i \<Rightarrow> i | None \<Rightarrow> 0)"

function bytesBE :: "nat \<Rightarrow> nat list" where
  "bytesBE n = (if n = 0 then [] else bytesBE (n div 256) @ [n mod 256])"
  by pat_completeness auto
termination
  by (relation "measure id") auto

definition decodeBase58 :: "string \<Rightarrow> nat list option" where
  "decodeBase58 s =
     (if list_all (\<lambda>c. c \<in> set base58Alphabet) s
      then Some (replicate (length (takeWhile (\<lambda>c. c = CHR ''1'') s)) 0
                 @ bytesBE (foldl (\<lambda>acc c. 58 * acc + base58Digit c) 0 s))
      else None)"

text \<open>
  The library as published, to run the builder on: \<open>new PublicKey(s)\<close> takes the base-58
  encodings of 32 bytes and throws on every other string; \<open>SystemProgram.transfer\<close>
  encodes the lamports as an unsigned integer of 64 bits and throws on every other
  number.
\<close>

definition sample_web3 :: web3 where
  "sample_web3 =
     \<lparr>newPublicKey = (\<lambda>s. case decodeBase58 s of
                            None \<Rightarrow> None
                          | Some bytes \<Rightarrow> if length bytes = 32 then Some (PublicKey bytes) else None),
      transferThrows = (\<lambda>params. \<not> isU64 (lamports params))\<rparr>"

text \<open>
  Two addresses with the keys they encode, an item listed at 1000000 lamports with 500
  basis points of royalty, and a node with two blockhashes to give.
\<close>

definition sample_mint :: string where
  "sample_mint = ''7DVeeik8cDUvHgqrTetG6fcDUHHZ8rW7dFHp1SsohKML''"

definition sample_mint_key :: PublicKey where
  "sample_mint_key = PublicKey
     [92, 89, 124, 38, 39, 64, 247, 182, 152, 234, 53, 178, 195, 25, 202, 119,
      47, 193, 189, 193, 173, 223, 0, 241, 229, 252, 30, 154, 32, 150, 92, 195]"

definition sample_account :: string where
  "sample_account = ''4Nd1mBQtrMJVYVfKf2PJy9NZUZdTAsp7D4xWLs4gDB4T''"

definition sample_account_key :: PublicKey where
  "sample_account_key = PublicKey
     [50, 28, 250, 90, 221, 24, 94, 136, 147, 165, 253, 136, 1, 62, 196, 215,
      225, 34, 222, 212, 99, 84, 202, 223, 245, 13, 149, 99, 149, 231, 91, 96]"

definition sample_item :: ItemDetails where
  "sample_item =
     \<lparr>onchainId = sample_mint,
      owner = sample_account,
      listing = Some \<lparr>listingPrice = str ''1000000'', seller = sample_account\<rparr>,
      sellRoyaltyFeeBPS = Fin 500\<rparr>"

definition sample_connection :: Connection where
  "sample_connection =
     [Some \<lparr>blockhash = ''EkSnNWid2cvwEVnVx9aBqawnmiCNiDgp3gUdkDPTKN1N'', lastValidBlockHeight = 3090\<rparr>,
      Some \<lparr>blockhash = ''9zb7KeUP1DJJYK3Hq5kB1Tq2bxVBWXDPCyHfXdw8EF4h'', lastValidBlockHeight = 3091\<rparr>]"

text \<open>
  An API to run the two flows on. It knows the sample item under every identifier, and
  the transaction it answers a request with spells out the price of the request: a
  number in decimal, a fraction where it is no integer.
\<close>

function decimal :: "int \<Rightarrow> string" where
  "decimal n = (if n < 10 then [''0123456789'' ! nat n]
                else decimal (n div 10) @ [''0123456789'' ! nat (n mod 10)])"
  by pat_completeness auto
termination
  by (relation "measure nat") auto

definition showNumber :: "number \<Rightarrow> string" where
  "showNumber x = (case x of
       NaN \<Rightarrow> ''NaN''
     | PosInf \<Rightarrow> ''Infinity''
     | NegInf \<Rightarrow> ''-Infinity''
     | Fin q \<Rightarrow>
         (if fst (quotient_of q) < 0 then ''-'' else [])
         @ decimal \<bar>fst (quotient_of q)\<bar>
         @ (if snd (quotient_of q) = 1 then [] else ''/'' @ decimal (snd (quotient_of q))))"

definition sample_api :: tensor_api where
  "sample_api =
     \<lparr>getNftInfo = (\<lambda>itemId. Inr (Some sample_item)),
      getNftBuyTransaction =
        (\<lambda>request. Inr (Some (''buy '' @ mintAddress request @ '' for ''
                               @ showNumber (orderPrice request)))),
      placeNftBid =
        (\<lambda>request. Inr (Some (''bid '' @ showNumber (orderPrice request) @ '' on ''
                               @ targetID request)))\<rparr>"

section \<open>Properties of rounding\<close>

text \<open>
  Powers of two, the binary exponent and rounding to an integer.
\<close>

lemma pow2_powi: "pow2 e = 2 powi e"
  by (simp add: pow2_def power_int_def inverse_eq_divide power_one_over)

lemma pow2_pos: "0 < pow2 e"
  by (simp add: pow2_def)

lemma pow2_add: "pow2 (a + b) = pow2 a * pow2 b"
  by (simp add: pow2_powi power_int_add)

lemma pow2_mono: "a \<le> b \<Longrightarrow> pow2 a \<le> pow2 b"
  by (simp add: pow2_powi power_int_increasing)

lemma pow2_strict_mono: "a < b \<Longrightarrow> pow2 a < pow2 b"
  by (simp add: pow2_powi power_int_strict_increasing)

lemma pow2_nat: "pow2 (int n) = 2 ^ n"
  by (simp add: pow2_def)

lemma pow2_split: "pow2 (e + 1) = pow2 53 * pow2 (e - 52)"
proof -
  have "e + 1 = 53 + (e - 52)" by simp
  then show ?thesis by (simp only: pow2_add)
qed

lemma pow2_of_int_le: "0 \<le> k \<Longrightarrow> 2 ^ nat k \<le> a \<Longrightarrow> pow2 k \<le> of_int a"
proof -
  assume k: "0 \<le> k" and le: "2 ^ nat k \<le> a"
  have "(of_int (2 ^ nat k) :: rat) \<le> of_int a" using le by (simp only: of_int_le_iff)
  then show ?thesis using k by (simp add: pow2_def)
qed

lemma of_int_less_pow2: "0 \<le> k \<Longrightarrow> a < 2 ^ nat k \<Longrightarrow> of_int a < pow2 k"
proof -
  assume k: "0 \<le> k" and le: "a < 2 ^ nat k"
  have "(of_int a :: rat) < of_int (2 ^ nat k)" using le by (simp only: of_int_less_iff)
  then show ?thesis using k by (simp add: pow2_def)
qed

lemma round_even_of_int: "round_even (of_int z) = z"
  by (simp add: round_even_def)

lemma round_even_nonneg: "0 \<le> x \<Longrightarrow> 0 \<le> round_even x"
  by (auto simp: round_even_def Let_def)

lemma round_even_err: "\<bar>of_int (round_even x) - x\<bar> \<le> 1 / 2"
proof -
  have lo: "of_int \<lfloor>x\<rfloor> \<le> x" and hi: "x < of_int \<lfloor>x\<rfloor> + 1"
    by linarith+
  show ?thesis
    unfolding round_even_def Let_def using lo hi
    by (auto simp add: abs_le_iff)
qed

lemma round_even_le: "x \<le> of_int N \<Longrightarrow> round_even x \<le> N"
proof -
  assume x: "x \<le> of_int N"
  then have f: "\<lfloor>x\<rfloor> \<le> N" by (simp add: floor_le_iff)
  show ?thesis
  proof (cases "\<lfloor>x\<rfloor> = N")
    case True
    then have "of_int N \<le> x" using of_int_floor_le[of x] by simp
    then have "x = of_int N" using x by simp
    then show ?thesis by (simp add: round_even_of_int)
  next
    case False
    then have "\<lfloor>x\<rfloor> + 1 \<le> N" using f by simp
    then show ?thesis by (simp add: round_even_def Let_def)
  qed
qed

lemma round_even_ge: "of_int N \<le> x \<Longrightarrow> N \<le> round_even x"
proof -
  assume "of_int N \<le> x"
  then have "N \<le> \<lfloor>x\<rfloor>" by (simp add: le_floor_iff)
  then show ?thesis by (simp add: round_even_def Let_def)
qed

lemma ilog2_bounds:
  assumes "0 < q"
  shows "pow2 (ilog2 q) \<le> q" and "q < pow2 (ilog2 q + 1)"
proof -
  obtain a b where ab: "quotient_of q = (a, b)" by (cases "quotient_of q")
  have b: "0 < b" using ab quotient_of_denom_pos by blast
  have q: "q = of_int a / of_int b" using ab quotient_of_div by blast
  have a: "0 < a" using assms b q by (simp add: zero_less_divide_iff)
  define la lb where "la = bitlen a" and "lb = bitlen b"
  have la1: "1 \<le> la" and lb1: "1 \<le> lb"
    using a b bitlen_eq_zero_iff[of a] bitlen_eq_zero_iff[of b] bitlen_nonneg[of a] bitlen_nonneg[of b]
    unfolding la_def lb_def by linarith+
  have ba: "2 ^ nat (la - 1) \<le> a" "a < 2 ^ nat la"
    using bitlen_bounds[OF a] unfolding la_def by auto
  have bb: "2 ^ nat (lb - 1) \<le> b" "b < 2 ^ nat lb"
    using bitlen_bounds[OF b] unfolding lb_def by auto
  have ra: "pow2 (la - 1) \<le> of_int a" "of_int a < pow2 la"
    using ba la1 by (simp_all add: pow2_of_int_le of_int_less_pow2)
  have rb: "pow2 (lb - 1) \<le> of_int b" "of_int b < pow2 lb"
    using bb lb1 by (simp_all add: pow2_of_int_le of_int_less_pow2)
  have up: "q < pow2 (la - lb + 1)"
  proof -
    have "of_int a < pow2 la" by (rule ra)
    also have "pow2 la = pow2 (la - lb + 1) * pow2 (lb - 1)"
      by (simp flip: pow2_add)
    also have "\<dots> \<le> pow2 (la - lb + 1) * of_int b"
      using rb(1) pow2_pos[of "la - lb + 1"] by (simp add: mult_left_mono)
    finally show ?thesis using b by (simp add: q pos_divide_less_eq)
  qed
  have lo: "pow2 (la - lb - 1) \<le> q"
  proof -
    have "pow2 (la - lb - 1) * of_int b \<le> pow2 (la - lb - 1) * pow2 lb"
      using rb(2) pow2_pos[of "la - lb - 1"] by (simp add: mult_left_mono)
    also have "\<dots> = pow2 (la - 1)" by (simp flip: pow2_add)
    also have "\<dots> \<le> of_int a" by (rule ra)
    finally show ?thesis using b by (simp add: q pos_le_divide_eq)
  qed
  have il: "ilog2 q = (if pow2 (la - lb) \<le> q then la - lb else la - lb - 1)"
    by (simp add: ilog2_def ab la_def lb_def Let_def)
  show "pow2 (ilog2 q) \<le> q" using lo by (simp add: il)
  show "q < pow2 (ilog2 q + 1)" using up by (auto simp: il)
qed

lemma ilog2_less:
  assumes "0 < q" "q < pow2 E"
  shows "ilog2 q < E"
proof (rule ccontr)
  assume "\<not> ilog2 q < E"
  then have "pow2 E \<le> pow2 (ilog2 q)" by (simp add: pow2_mono)
  also have "\<dots> \<le> q" using ilog2_bounds(1)[OF assms(1)] .
  finally show False using assms(2) by simp
qed

lemma ilog2_eqI:
  assumes "pow2 e \<le> q" "q < pow2 (e + 1)"
  shows "ilog2 q = e"
proof -
  have q: "0 < q" using assms(1) pow2_pos[of e] by simp
  have "ilog2 q < e + 1" using q assms(2) by (rule ilog2_less)
  moreover have "e < ilog2 q + 1"
  proof (rule ccontr)
    assume "\<not> e < ilog2 q + 1"
    then have "pow2 (ilog2 q + 1) \<le> pow2 e" by (simp add: pow2_mono)
    then show False using ilog2_bounds(2)[OF q] assms(1) by simp
  qed
  ultimately show ?thesis by simp
qed

text \<open>
  Rounding to a double: a number with at most 53 significant bits and an exponent in
  range is left as it is, in particular every integer up to \<open>2^53\<close>; rounding keeps the
  sign, is idempotent, and moves a number by half a unit in the last place at most.
\<close>

lemma fl_nonzero:
  "q \<noteq> 0 \<Longrightarrow> fl q =
     (let r = of_int (round_even (q / pow2 (max (ilog2 \<bar>q\<bar>) (- 1022) - 52)))
                * pow2 (max (ilog2 \<bar>q\<bar>) (- 1022) - 52)
      in if 2 ^ 1024 \<le> \<bar>r\<bar> then (if 0 < q then PosInf else NegInf) else Fin r)"
  by (simp add: fl_def Let_def)

lemma fl_exact:
  assumes q: "q = of_int m * pow2 k" and m: "\<bar>m\<bar> < 2 ^ 53" and k: "- 1074 \<le> k"
    and bound: "\<bar>q\<bar> < 2 ^ 1024"
  shows "fl q = Fin q"
proof (cases "q = 0")
  case True
  then show ?thesis by (simp add: fl_def)
next
  case False
  define e where "e = max (ilog2 \<bar>q\<bar>) (- 1022)"
  have "\<bar>q\<bar> = of_int \<bar>m\<bar> * pow2 k"
    using pow2_pos[of k] by (simp add: q abs_mult)
  also have "\<dots> < 2 ^ 53 * pow2 k"
  proof -
    have "(of_int \<bar>m\<bar> :: rat) < of_int (2 ^ 53)" using m by (simp only: of_int_less_iff)
    then show ?thesis using pow2_pos[of k] by simp
  qed
  also have "\<dots> = pow2 (53 + k)" using pow2_nat[of 53] by (simp add: pow2_add)
  finally have "ilog2 \<bar>q\<bar> < 53 + k" using False by (intro ilog2_less) simp_all
  then have e: "e \<le> k + 52" using k by (simp add: e_def)
  define j where "j = nat (k + 52 - e)"
  have "pow2 k = pow2 (int j) * pow2 (e - 52)"
    using e by (simp add: j_def flip: pow2_add)
  then have qm: "q = of_int (m * 2 ^ j) * pow2 (e - 52)"
    by (simp add: q pow2_nat)
  then have "q / pow2 (e - 52) = of_int (m * 2 ^ j)"
    using pow2_pos[of "e - 52"] by simp
  then have "round_even (q / pow2 (e - 52)) = m * 2 ^ j"
    by (simp only: round_even_of_int)
  then have "of_int (round_even (q / pow2 (e - 52))) * pow2 (e - 52) = q"
    using qm by simp
  then show ?thesis
    using False bound unfolding fl_nonzero[OF False] e_def[symmetric] by (simp add: Let_def)
qed

lemma fl_of_int:
  assumes "\<bar>n\<bar> \<le> 2 ^ 53"
  shows "fl (of_int n) = Fin (of_int n)"
proof (cases "\<bar>n\<bar> < 2 ^ 53")
  case True
  have "\<bar>of_int n :: rat\<bar> < 2 ^ 1024"
  proof -
    have "(of_int \<bar>n\<bar> :: rat) < of_int (2 ^ 53)" using True by (simp only: of_int_less_iff)
    then show ?thesis by simp
  qed
  then show ?thesis
    using fl_exact[of "of_int n" n 0] True by (simp add: pow2_def)
next
  case False
  then have "n = 2 ^ 53 \<or> n = - (2 ^ 53)" using assms by linarith
  then show ?thesis
  proof
    assume "n = 2 ^ 53"
    then show ?thesis using fl_exact[of "2 ^ 53" 1 53] by (simp add: pow2_def)
  next
    assume "n = - (2 ^ 53)"
    then show ?thesis using fl_exact[of "- (2 ^ 53)" "- 1" 53] by (simp add: pow2_def)
  qed
qed

lemma fl_numeral: "numeral k \<le> (2::int) ^ 53 \<Longrightarrow> fl (numeral k) = Fin (numeral k)"
  using fl_of_int[of "numeral k"] by simp

lemma fl_zero: "fl 0 = Fin 0"
  by (simp add: fl_def)

lemma fl_one: "fl 1 = Fin 1"
  using fl_of_int[of 1] by simp

lemma fl_not_NaN: "fl q \<noteq> NaN"
  by (simp add: fl_def Let_def)

lemma fl_nonneg:
  assumes "0 \<le> q"
  shows "fl q \<noteq> NegInf" and "fl q = Fin r \<Longrightarrow> 0 \<le> r"
proof -
  show "fl q \<noteq> NegInf" using assms by (simp add: fl_def Let_def)
  assume r: "fl q = Fin r"
  show "0 \<le> r"
  proof (cases "q = 0")
    case True
    then show ?thesis using r by (simp add: fl_def)
  next
    case False
    define u where "u = pow2 (max (ilog2 \<bar>q\<bar>) (- 1022) - 52)"
    have u: "0 < u" by (simp add: u_def pow2_pos)
    have "0 \<le> q / u" using assms u by simp
    then have "0 \<le> round_even (q / u)" by (rule round_even_nonneg)
    then have "0 \<le> of_int (round_even (q / u)) * u" using u by simp
    moreover have "r = of_int (round_even (q / u)) * u"
      using r unfolding fl_nonzero[OF False] u_def[symmetric]
      by (simp add: Let_def split: if_splits)
    ultimately show ?thesis by simp
  qed
qed

lemma fl_error:
  assumes "q \<noteq> 0" and "fl q = Fin r"
  shows "\<bar>r - q\<bar> \<le> pow2 (max (ilog2 \<bar>q\<bar>) (- 1022) - 53)"
proof -
  define e where "e = max (ilog2 \<bar>q\<bar>) (- 1022)"
  define u where "u = pow2 (e - 52)"
  have u: "0 < u" by (simp add: u_def pow2_pos)
  have r: "r = of_int (round_even (q / u)) * u"
    using assms(2) unfolding fl_nonzero[OF assms(1)] u_def e_def
    by (simp add: Let_def split: if_splits)
  have "r - q = (of_int (round_even (q / u)) - q / u) * u"
    using u by (simp add: r field_simps)
  then have "\<bar>r - q\<bar> = \<bar>of_int (round_even (q / u)) - q / u\<bar> * u"
    using u by (simp add: abs_mult)
  also have "\<dots> \<le> (1 / 2) * u"
    using round_even_err[of "q / u"] u by (simp add: mult_right_mono)
  also have "\<dots> = pow2 (e - 53)"
  proof -
    have "pow2 (e - 52) = pow2 (e - 53) * pow2 1" by (simp flip: pow2_add)
    then show ?thesis by (simp add: u_def pow2_def)
  qed
  finally show ?thesis by (simp add: e_def)
qed

lemma fl_idem:
  assumes "fl q = Fin r"
  shows "fl r = Fin r"
proof (cases "q = 0")
  case True
  then show ?thesis using assms by (auto simp: fl_def)
next
  case False
  define e where "e = max (ilog2 \<bar>q\<bar>) (- 1022)"
  define u where "u = pow2 (e - 52)"
  define m where "m = round_even (q / u)"
  have u: "0 < u" by (simp add: u_def pow2_pos)
  have r: "r = of_int m * u" and big: "\<bar>r\<bar> < 2 ^ 1024"
    using assms unfolding fl_nonzero[OF False] u_def e_def m_def
    by (simp_all add: Let_def split: if_splits)
  have "\<bar>q\<bar> < pow2 (ilog2 \<bar>q\<bar> + 1)" using False by (intro ilog2_bounds(2)) simp
  also have "\<dots> \<le> pow2 (e + 1)" by (simp add: e_def pow2_mono)
  also have "\<dots> = pow2 53 * u" by (simp only: u_def pow2_split)
  finally have "\<bar>q / u\<bar> < 2 ^ 53"
    using u pow2_nat[of 53] by (simp add: pos_divide_less_eq)
  then have "q / u < 2 ^ 53" "- (2 ^ 53) < q / u" by (simp_all only: abs_less_iff) simp
  then have up: "q / u \<le> of_int (2 ^ 53)" and lo: "of_int (- (2 ^ 53)) \<le> q / u"
    by simp_all
  have "m \<le> 2 ^ 53" unfolding m_def using up by (rule round_even_le)
  moreover have "- (2 ^ 53) \<le> m" unfolding m_def using lo by (rule round_even_ge)
  ultimately  consider "\<bar>m\<bar> < 2 ^ 53" | "m = 2 ^ 53" | "m = - (2 ^ 53)" by linarith
  then show ?thesis
  proof cases
    case 1
    show ?thesis
      by (rule fl_exact[of r m "e - 52"]) (use 1 big in \<open>simp_all add: r u_def e_def\<close>)
  next
    case 2
    have "r = pow2 53 * pow2 (e - 52)" using 2 pow2_nat[of 53] by (simp add: r u_def)
    then have "r = of_int 1 * pow2 (e + 1)" by (simp add: pow2_split)
    then show ?thesis
      by (rule fl_exact[of r 1 "e + 1"]) (use big in \<open>simp_all add: e_def\<close>)
  next
    case 3
    have "r = - (pow2 53 * pow2 (e - 52))" using 3 pow2_nat[of 53] by (simp add: r u_def)
    then have "r = of_int (- 1) * pow2 (e + 1)" by (simp add: pow2_split)
    then show ?thesis
      by (rule fl_exact[of r "- 1" "e + 1"]) (use big in \<open>simp_all add: e_def\<close>)
  qed
qed

lemma fl_eval:
  assumes lo: "pow2 e \<le> \<bar>q\<bar>" and hi: "\<bar>q\<bar> < pow2 (e + 1)"
    and e: "- 1022 \<le> e" "e \<le> 1022"
    and m: "round_even (q / pow2 (e - 52)) = m"
  shows "fl q = Fin (of_int m * pow2 (e - 52))"
proof -
  have q: "q \<noteq> 0" using lo pow2_pos[of e] by auto
  have il: "max (ilog2 \<bar>q\<bar>) (- 1022) = e" using ilog2_eqI[OF lo hi] e by simp
  define u where "u = pow2 (e - 52)"
  have u: "0 < u" by (simp add: u_def pow2_pos)
  have "\<bar>q\<bar> < pow2 53 * u" using hi by (simp only: u_def pow2_split)
  then have "\<bar>q / u\<bar> < 2 ^ 53" using u pow2_nat[of 53] by (simp add: pos_divide_less_eq)
  then have "q / u < 2 ^ 53" "- (2 ^ 53) < q / u" by (simp_all only: abs_less_iff) simp
  then have up: "q / u \<le> of_int (2 ^ 53)" and low: "of_int (- (2 ^ 53)) \<le> q / u"
    by simp_all
  have "m \<le> 2 ^ 53" using round_even_le[OF up] m by (simp add: u_def)
  moreover have "- (2 ^ 53) \<le> m" using round_even_ge[OF low] m by (simp add: u_def)
  ultimately have "\<bar>m\<bar> \<le> 2 ^ 53" by simp
  then have "(of_int \<bar>m\<bar> :: rat) \<le> of_int (2 ^ 53)" by (simp only: of_int_le_iff)
  then have "\<bar>of_int m :: rat\<bar> \<le> pow2 53" using pow2_nat[of 53] by simp
  then have "\<bar>of_int m * u\<bar> \<le> pow2 53 * u" using u by (simp add: abs_mult)
  also have "\<dots> = pow2 (e + 1)" by (simp only: u_def pow2_split)
  also have "\<dots> \<le> pow2 1023" using e by (intro pow2_mono) simp
  also have "\<dots> < 2 ^ 1024" using pow2_nat[of 1023] by simp
  finally have "\<not> 2 ^ 1024 \<le> \<bar>of_int m * u\<bar>" by simp
  then show ?thesis
    unfolding fl_nonzero[OF q] il using m by (simp add: Let_def u_def)
qed

lemma is_double_fl: "is_double (fl q)"
  by (cases "fl q") (simp_all add: is_double_def fl_idem)

lemma is_double_of_int: "\<bar>n\<bar> \<le> 2 ^ 53 \<Longrightarrow> is_double (Fin (of_int n))"
  by (simp add: is_double_def fl_of_int)

lemma add_zero_right: "is_double x \<Longrightarrow> add x (Fin 0) = x"
  by (cases x) (simp_all add: is_double_def)

lemma mul_LAMPORTS_not_NaN: "x \<noteq> NaN \<Longrightarrow> mul x LAMPORTS_PER_SOL \<noteq> NaN"
  by (cases x) (simp_all add: LAMPORTS_PER_SOL_def fl_not_NaN)

text \<open>
  A quotient by 10000 of a natural number up to \<open>2^53\<close> rounds to an integer exactly
  when the division leaves no remainder.
\<close>

lemma fl_quotient_dvd:
  assumes "10000 dvd c" "c \<le> 2 ^ 53"
  shows "fl (of_nat c / 10000) = Fin (of_nat (c div 10000))"
proof -
  obtain t where t: "c = 10000 * t" using assms(1) by (auto simp: dvd_def)
  have "t \<le> 2 ^ 53" using assms(2) t by simp
  then have "\<bar>int t\<bar> \<le> 2 ^ 53" by (simp add: of_nat_le_iff[of t "2 ^ 53", where ?'a = int, simplified])
  then have "fl (of_int (int t)) = Fin (of_int (int t))" by (rule fl_of_int)
  then show ?thesis by (simp add: t)
qed

lemma fl_quotient_not_integer:
  assumes nd: "\<not> 10000 dvd c" and c: "c \<le> 2 ^ 53"
  shows "\<not> isInteger (fl (of_nat c / 10000))"
proof
  assume int: "isInteger (fl (of_nat c / 10000))"
  define q :: rat where "q = of_nat c / 10000"
  obtain r where r: "fl q = Fin r" and rz: "of_int \<lfloor>r\<rfloor> = r"
    using int unfolding q_def[symmetric] by (cases "fl q") (simp_all add: isInteger_def)
  have c0: "c \<noteq> 0" using nd by (metis dvd_0_right)
  then have q0: "0 < q" by (simp add: q_def)
  have "(of_nat c :: rat) \<le> of_nat (2 ^ 53)" using c by (simp only: of_nat_le_iff)
  then have "q < pow2 40" by (simp add: q_def pow2_def)
  then have "ilog2 \<bar>q\<bar> < 40" using q0 by (intro ilog2_less) simp_all
  then have "max (ilog2 \<bar>q\<bar>) (- 1022) - 53 \<le> - 14" by simp
  then have "pow2 (max (ilog2 \<bar>q\<bar>) (- 1022) - 53) \<le> pow2 (- 14)" by (rule pow2_mono)
  moreover have "\<bar>r - q\<bar> \<le> pow2 (max (ilog2 \<bar>q\<bar>) (- 1022) - 53)"
    using q0 r by (intro fl_error) simp_all
  ultimately have err: "\<bar>r - q\<bar> \<le> 1 / 16384" by (simp add: pow2_def)
  define d where "d = 10000 * \<lfloor>r\<rfloor> - int c"
  have "d \<noteq> 0"
  proof
    assume "d = 0"
    then have "int c = 10000 * \<lfloor>r\<rfloor>" by (simp add: d_def)
    then have "(10000::int) dvd int c" by simp
    then have "10000 dvd c" by presburger
    then show False using nd by simp
  qed
  then have "1 \<le> \<bar>d\<bar>" by simp
  then have "(of_int 1 :: rat) \<le> of_int \<bar>d\<bar>" by (simp only: of_int_le_iff)
  then have "1 \<le> \<bar>of_int d :: rat\<bar>" by simp
  moreover have "(of_int d :: rat) = 10000 * (r - q)"
    using rz by (simp add: d_def q_def)
  ultimately have "1 \<le> \<bar>10000 * (r - q)\<bar>" by (simp only:)
  then have "1 \<le> 10000 * \<bar>r - q\<bar>" by (simp only: abs_mult)
  then show False using err by simp
qed

lemma fl_quotient_iff:
  assumes "c \<le> 2 ^ 53"
  shows "fl (of_nat c / 10000) = Fin (of_nat (c div 10000)) \<longleftrightarrow> 10000 dvd c"
proof
  assume "fl (of_nat c / 10000) = Fin (of_nat (c div 10000))"
  then have "isInteger (fl (of_nat c / 10000))" by (simp add: isInteger_def)
  then show "10000 dvd c" using fl_quotient_not_integer[OF _ assms] by blast
next
  assume "10000 dvd c"
  then show "fl (of_nat c / 10000) = Fin (of_nat (c div 10000))"
    using assms by (rule fl_quotient_dvd)
qed

lemma mul_of_nat:
  assumes "n * b \<le> 2 ^ 53"
  shows "mul (Fin (of_nat n)) (Fin (of_nat b)) = Fin (of_nat (n * b))"
proof -
  have "int (n * b) \<le> int (2 ^ 53)" using assms by (simp only: of_nat_le_iff)
  then have "\<bar>int (n * b)\<bar> \<le> 2 ^ 53" by simp
  then have "fl (of_int (int (n * b))) = Fin (of_int (int (n * b)))" by (rule fl_of_int)
  then show ?thesis by simp
qed

lemma marketPlaceFee_of_nat:
  assumes "n * 150 \<le> 2 ^ 53"
  shows "marketPlaceFee (Fin (of_nat n)) = fl (of_nat (n * 150) / 10000)"
  using mul_of_nat[of n 150] assms by (simp add: marketPlaceFee_def TENSOR_FEE_BPS_def)

lemma royalty_of_nat:
  assumes "n * b \<le> 2 ^ 53" "truthy ts"
  shows "royalty (Fin (of_nat n)) (Fin (of_nat b)) ts = fl (of_nat (n * b) / 10000)"
  using mul_of_nat[of n b] assms by (simp add: royalty_def)

text \<open>
Non-negative numbers are closed under the operations of \<open>getTotalPrice\<close>.
\<close>

lemma nonneg_fl: "0 \<le> q \<Longrightarrow> nonneg (fl q)"
  using fl_not_NaN[of q] fl_nonneg[of q] by (cases "fl q") (simp_all add: nonneg_def)

lemma nonneg_mul_Fin: "0 \<le> a \<Longrightarrow> 0 \<le> b \<Longrightarrow> nonneg (mul (Fin a) (Fin b))"
  by (simp add: nonneg_fl)

lemma nonneg_div_10000: "nonneg x \<Longrightarrow> nonneg (divide_num x (Fin 10000))"
  by (cases x) (simp_all add: nonneg_def nonneg_fl[unfolded nonneg_def])

lemma nonneg_add: "nonneg x \<Longrightarrow> nonneg y \<Longrightarrow> nonneg (add x y)"
  by (cases x; cases y) (simp_all add: nonneg_def nonneg_fl[unfolded nonneg_def])

text \<open>
Some values: the fee and the total at the prices 1 and 1000000.
\<close>

lemma fl_3_200: "fl (3 / 200) = Fin (1080863910568919 / 72057594037927936)"
proof -
  have m: "round_even (3 / 200 / pow2 (- 7 - 52)) = 8646911284551352" by code_simp
  show ?thesis using fl_eval[of "- 7" "3 / 200", OF _ _ _ _ m] by (simp add: pow2_def)
qed

lemma marketPlaceFee_1: "marketPlaceFee (Fin 1) = Fin (1080863910568919 / 72057594037927936)"
  by (simp add: marketPlaceFee_def TENSOR_FEE_BPS_def fl_numeral fl_3_200)

lemma getTotalPrice_1:
  "getTotalPrice (Fin 1) (Fin 0) None = Fin (4571153621781053 / 4503599627370496)"
proof -
  have m: "round_even (73138457948496855 / 72057594037927936 / pow2 (0 - 52)) = 4571153621781053"
    by code_simp
  have "fl (73138457948496855 / 72057594037927936) = Fin (4571153621781053 / 4503599627370496)"
    using fl_eval[of 0 "73138457948496855 / 72057594037927936", OF _ _ _ _ m]
    by (simp add: pow2_def)
  then show ?thesis
    by (simp add: getTotalPrice_def royalty_def truthy_def marketPlaceFee_1 fl_one)
qed

lemma royalty_1000000: "royalty (Fin 1000000) (Fin 500) (Some ''NonFungible'') = Fin 50000"
  by (simp add: royalty_def truthy_def fl_numeral)

lemma marketPlaceFee_1000000: "marketPlaceFee (Fin 1000000) = Fin 15000"
  by (simp add: marketPlaceFee_def TENSOR_FEE_BPS_def fl_numeral)

text \<open>
  A quotient by 10000 of a natural number up to \<open>2^53\<close> rounds to a finite double; the
  price plus the marketplace fee, for a price that is a natural number.
\<close>

lemma fl_finite:
  assumes "pow2 (- 1022) \<le> \<bar>q\<bar>" and "\<bar>q\<bar> < pow2 1023"
  shows "\<exists>r. fl q = Fin r"
proof -
  have q: "0 < \<bar>q\<bar>" using assms(1) pow2_pos[of "- 1022"] by linarith
  define e where "e = ilog2 \<bar>q\<bar>"
  have lo: "pow2 e \<le> \<bar>q\<bar>" and hi: "\<bar>q\<bar> < pow2 (e + 1)"
    unfolding e_def using ilog2_bounds[OF q] by simp_all
  have "e < 1023" unfolding e_def using q assms(2) by (rule ilog2_less)
  moreover have "- 1022 < e + 1"
  proof (rule ccontr)
    assume "\<not> - 1022 < e + 1"
    then have "pow2 (e + 1) \<le> pow2 (- 1022)" by (simp add: pow2_mono)
    then show False using hi assms(1) by simp
  qed
  ultimately have "- 1022 \<le> e" "e \<le> 1022" by simp_all
  then show ?thesis using fl_eval[OF lo hi _ _ refl] by blast
qed

lemma fl_quotient_finite:
  assumes "c \<le> 2 ^ 53"
  shows "\<exists>f. fl (of_nat c / 10000) = Fin f"
proof (cases "c = 0")
  case True
  then show ?thesis by (simp add: fl_zero)
next
  case False
  define q :: rat where "q = of_nat c / 10000"
  have "(of_nat c :: rat) \<le> of_nat (2 ^ 53)" using assms by (simp only: of_nat_le_iff)
  then have hi: "\<bar>q\<bar> < pow2 1023"
  proof -
    assume "(of_nat c :: rat) \<le> of_nat (2 ^ 53)"
    then have "q < pow2 40" by (simp add: q_def pow2_def)
    also have "pow2 40 \<le> pow2 1023" by (rule pow2_mono) simp
    finally show ?thesis by (simp add: q_def)
  qed
  have "1 \<le> c" using False by simp
  then have "(of_nat 1 :: rat) \<le> of_nat c" by (simp only: of_nat_le_iff)
  then have "1 / 10000 \<le> q" by (simp add: q_def)
  moreover have "pow2 (- 1022) \<le> pow2 (- 14)" by (rule pow2_mono) simp
  moreover have "pow2 (- 14) \<le> 1 / 10000" by (simp add: pow2_def)
  ultimately have lo: "pow2 (- 1022) \<le> \<bar>q\<bar>" by linarith
  show ?thesis using fl_finite[OF lo hi] by (simp add: q_def)
qed

lemma is_double_of_nat: "n \<le> 2 ^ 53 \<Longrightarrow> is_double (Fin (of_nat n))"
proof -
  assume "n \<le> 2 ^ 53"
  then have "int n \<le> int (2 ^ 53)" by (simp only: of_nat_le_iff)
  then have "\<bar>int n\<bar> \<le> 2 ^ 53" by simp
  then show ?thesis using is_double_of_int[of "int n"] by simp
qed

lemma getTotalPrice_no_tokenStandard:
  "is_double p \<Longrightarrow>
   getTotalPrice p royaltyBps None = add p (divide_num (mul p (Fin 150)) (Fin 10000))"
  by (simp add: getTotalPrice_def royalty_def truthy_def add_zero_right marketPlaceFee_def
      TENSOR_FEE_BPS_def)

lemma price_plus_fee_of_nat:
  assumes "n * 150 \<le> 2 ^ 53"
  shows "\<exists>f. fl (of_nat (n * 150) / 10000) = Fin f
           \<and> add (Fin (of_nat n)) (divide_num (mul (Fin (of_nat n)) (Fin 150)) (Fin 10000))
               = fl (of_nat n + f)"
proof -
  obtain f where f: "fl (of_nat (n * 150) / 10000) = Fin f"
    using fl_quotient_finite[OF assms] by blast
  have "divide_num (mul (Fin (of_nat n)) (Fin 150)) (Fin 10000) = Fin f"
    using marketPlaceFee_of_nat[OF assms] f by (simp add: marketPlaceFee_def TENSOR_FEE_BPS_def)
  then show ?thesis using f by simp
qed

lemma price_plus_fee_dvd:
  assumes "n * 150 \<le> 2 ^ 53" and "10000 dvd n * 150"
  shows "add (Fin (of_nat n)) (divide_num (mul (Fin (of_nat n)) (Fin 150)) (Fin 10000))
           = Fin (of_nat (n + n * 150 div 10000))"
proof -
  have fee: "divide_num (mul (Fin (of_nat n)) (Fin 150)) (Fin 10000)
               = Fin (of_nat (n * 150 div 10000))"
    using marketPlaceFee_of_nat[OF assms(1)] fl_quotient_dvd[OF assms(2,1)]
    by (simp add: marketPlaceFee_def TENSOR_FEE_BPS_def)
  have "n + n * 150 div 10000 \<le> 2 ^ 53" using assms(1) by simp
  then have "int (n + n * 150 div 10000) \<le> int (2 ^ 53)" by (simp only: of_nat_le_iff)
  then have "\<bar>int (n + n * 150 div 10000)\<bar> \<le> 2 ^ 53" by simp
  then have "fl (of_int (int (n + n * 150 div 10000))) = Fin (of_int (int (n + n * 150 div 10000)))"
    by (rule fl_of_int)
  then show ?thesis unfolding fee by simp
qed

lemma fl_1_plus_fee:
  "fl (73138457948496855 / 72057594037927936) = Fin (4571153621781053 / 4503599627370496)"
proof -
  have m: "round_even (73138457948496855 / 72057594037927936 / pow2 (0 - 52)) = 4571153621781053"
    by code_simp
  show ?thesis
    using fl_eval[of 0 "73138457948496855 / 72057594037927936", OF _ _ _ _ m]
    by (simp add: pow2_def)
qed

text \<open>
The built-in parsers return doubles; some of their values.
\<close>

lemma fl_neg_numeral:
  "numeral k \<le> (2::int) ^ 53 \<Longrightarrow> fl (- numeral k) = Fin (- numeral k)"
  using fl_of_int[of "- numeral k"] by simp

lemma fl_minus_one: "fl (- 1) = Fin (- 1)"
  using fl_of_int[of "- 1"] by simp

lemma is_double_parseInt: "is_double (parseInt s)"
proof -
  have "is_double NaN" by (simp add: is_double_def)
  then show ?thesis
    by (simp add: parseInt_def Let_def is_double_fl split: prod.splits)
qed

lemma parseInt_1000000: "parseInt (str ''1000000'') = Fin 1000000"
  by (simp add: parseInt_def str_def stripSign_def isWhiteSpace_def isDigit_def digitsValue_def
      fl_numeral)

lemma parseFloat_1_5: "parseFloat (str ''1.5'') = Fin (3 / 2)"
proof -
  have "fl (3 / 2) = Fin (3 / 2)"
    using fl_exact[of "3 / 2" 3 "- 1"] by (simp add: pow2_def)
  then show ?thesis
    by (simp add: parseFloat_def str_def stripSign_def isWhiteSpace_def isDigit_def
        digitsValue_def exponentPart_def pow10_def)
qed

lemma parseFloat_nbsp_1_5: "parseFloat (0xA0 # str ''1.5'') = Fin (3 / 2)"
proof -
  have "fl (3 / 2) = Fin (3 / 2)"
    using fl_exact[of "3 / 2" 3 "- 1"] by (simp add: pow2_def)
  then show ?thesis
    by (simp add: parseFloat_def str_def stripSign_def isWhiteSpace_def isDigit_def
        digitsValue_def exponentPart_def pow10_def)
qed

lemma parseFloat_minus_1: "parseFloat (str ''-1'') = Fin (- 1)"
  by (simp add: parseFloat_def str_def stripSign_def isWhiteSpace_def isDigit_def
      digitsValue_def exponentPart_def pow10_def fl_minus_one)

lemma parseFloat_abc: "parseFloat (str ''abc'') = NaN"
  by (simp add: parseFloat_def str_def stripSign_def isWhiteSpace_def isDigit_def)

lemma mul_1_5_LAMPORTS: "mul (Fin (3 / 2)) LAMPORTS_PER_SOL = Fin 1500000000"
  by (simp add: LAMPORTS_PER_SOL_def fl_numeral)

lemma mul_minus_1_LAMPORTS: "mul (Fin (- 1)) LAMPORTS_PER_SOL = Fin (- 1000000000)"
  by (simp add: LAMPORTS_PER_SOL_def fl_neg_numeral)

text \<open>
The sample collaborators, and the builder where nothing fails.
\<close>

lemma newPublicKey_sample_account:
  "newPublicKey sample_web3 sample_account = Some sample_account_key"
  by (simp add: sample_web3_def sample_account_def sample_account_key_def decodeBase58_def
      base58Alphabet_def base58Digit_def bytesBE.simps)

lemma newPublicKey_sample_mint:
  "newPublicKey sample_web3 sample_mint = Some sample_mint_key"
  by (simp add: sample_web3_def sample_mint_def sample_mint_key_def decodeBase58_def
      base58Alphabet_def base58Digit_def bytesBE.simps)

lemma newPublicKey_malformed: "newPublicKey sample_web3 ''not-an-address'' = None"
  by (simp add: sample_web3_def decodeBase58_def base58Alphabet_def)

lemma transferThrows_sample:
  "transferThrows sample_web3 params = (\<not> isU64 (lamports params))"
  by (simp add: sample_web3_def)

lemma getLatestBlockhash_sample:
  "getLatestBlockhash sample_connection =
     (Inr \<lparr>blockhash = ''EkSnNWid2cvwEVnVx9aBqawnmiCNiDgp3gUdkDPTKN1N'', lastValidBlockHeight = 3090\<rparr>,
      tl sample_connection)"
  by (simp add: sample_connection_def)

lemma decimal_1015000: "decimal 1015000 = ''1015000''"
  by (simp add: decimal.simps)

lemma showNumber_1015000: "showNumber (Fin 1015000) = ''1015000''"
  by (simp add: showNumber_def decimal.simps)

lemma showNumber_1500000000: "showNumber (Fin 1500000000) = ''1500000000''"
  by (simp add: showNumber_def decimal.simps)

lemma showNumber_minus: "showNumber (Fin (- 1000000000)) = ''-1000000000''"
  by (simp add: showNumber_def decimal.simps)

lemma isU64_numeral: "numeral k < (2::rat) ^ 64 \<Longrightarrow> isU64 (Fin (numeral k))"
  by (simp add: isU64_def)

lemma not_isU64: "\<not> (isInteger amount \<and> nonneg amount) \<Longrightarrow> \<not> isU64 amount"
  by (cases amount) (auto simp: isU64_def isInteger_def nonneg_def)

lemma createBidNftTransaction_ok:
  assumes "newPublicKey lib bidder = Some payer"
    and "newPublicKey lib mint = Some recipient"
    and "\<not> transferThrows lib \<lparr>fromPubkey = payer, toPubkey = recipient, lamports = amount\<rparr>"
    and "getLatestBlockhash connection = (Inr res, connection')"
  shows "createBidNftTransaction lib connection mint bidder amount =
           (Inr \<lparr>payerKey = payer, recentBlockhash = blockhash res,
                 instructions = [SystemTransfer \<lparr>fromPubkey = payer, toPubkey = recipient,
                                                  lamports = amount\<rparr>]\<rparr>,
            connection')"
  using assms
  by (simp add: createBidNftTransaction_def SystemProgram_transfer_def prepareTransaction_def)

lemma createBuyNftTransaction_transfer_ok:
  assumes "newPublicKey lib buyer = Some payer"
    and "newPublicKey lib mint = Some recipient"
    and "\<not> transferThrows lib \<lparr>fromPubkey = payer, toPubkey = recipient,
                                 lamports = mul price LAMPORTS_PER_SOL\<rparr>"
    and "getLatestBlockhash connection = (Inr res, connection')"
  shows "createBuyNftTransaction_transfer lib connection mint buyer price =
           (Inr \<lparr>payerKey = payer, recentBlockhash = blockhash res,
                 instructions = [SystemTransfer \<lparr>fromPubkey = payer, toPubkey = recipient,
                                                  lamports = mul price LAMPORTS_PER_SOL\<rparr>]\<rparr>,
            connection')"
  using assms
  by (simp add: createBuyNftTransaction_transfer_def SystemProgram_transfer_def
      prepareTransaction_def)

lemma prepareTransaction_same_blockhash:
  assumes "fst (getLatestBlockhash c1) = Inr r1"
    and "fst (getLatestBlockhash c2) = Inr r2"
    and "blockhash r1 = blockhash r2"
  shows "fst (prepareTransaction c1 instrs payer) = fst (prepareTransaction c2 instrs payer)"
proof -
  obtain d1 d2 where "getLatestBlockhash c1 = (Inr r1, d1)" "getLatestBlockhash c2 = (Inr r2, d2)"
    using assms(1,2) by (metis prod.collapse)
  then show ?thesis using assms(3) by (simp add: prepareTransaction_def)
qed

section \<open>The pricing claims\<close>

text \<open>
  Claim C1 says that each fee term is an integer division truncating toward zero. The
  source divides doubles and truncates nowhere: at the price 1 the marketplace fee is the
  double next to 0.015, not 0.
\<close>

theorem marketPlaceFee_not_truncated:
  "marketPlaceFee (Fin 1) = Fin (1080863910568919 / 72057594037927936)
   \<and> marketPlaceFee (Fin 1) \<noteq> Fin (of_int (1 * 150 div 10000))"
  by (simp add: marketPlaceFee_1)

text \<open>
  Claim C1, amended: for a non-negative integer price (and rate) whose product with the
  rate is at most \<open>2^53\<close>, the marketplace fee is \<open>price * 150 / 10000\<close> rounded to the
  nearest double, and the royalty term, when the token standard is given, is
  \<open>price * royaltyBps / 10000\<close> rounded to the nearest double. A term equals the
  truncated integer quotient exactly when its product is a multiple of 10000.
\<close>

theorem fee_terms_are_rounded_quotients:
  assumes "n * 150 \<le> 2 ^ 53" and "n * b \<le> 2 ^ 53" and "truthy tokenStandard"
  shows "marketPlaceFee (Fin (of_nat n)) = fl (of_nat (n * 150) / 10000)
       \<and> royalty (Fin (of_nat n)) (Fin (of_nat b)) tokenStandard = fl (of_nat (n * b) / 10000)
       \<and> (marketPlaceFee (Fin (of_nat n)) = Fin (of_nat (n * 150 div 10000))
            \<longleftrightarrow> 10000 dvd n * 150)
       \<and> (royalty (Fin (of_nat n)) (Fin (of_nat b)) tokenStandard = Fin (of_nat (n * b div 10000))
            \<longleftrightarrow> 10000 dvd n * b)"
  using assms
  by (simp only: marketPlaceFee_of_nat royalty_of_nat fl_quotient_iff simp_thms)

theorem fee_terms_are_rounded_quotients_witness:
  "(1000000::nat) * 150 \<le> 2 ^ 53 \<and> (1000000::nat) * 500 \<le> 2 ^ 53 \<and> truthy (Some ''NonFungible'')
   \<and> marketPlaceFee (Fin 1000000) = Fin 15000
   \<and> royalty (Fin 1000000) (Fin 500) (Some ''NonFungible'') = Fin 50000"
proof -
  have h: "(1000000::nat) * 150 \<le> 2 ^ 53" "(1000000::nat) * 500 \<le> 2 ^ 53"
    "truthy (Some ''NonFungible'')"
    by (simp_all add: truthy_def)
  from fee_terms_are_rounded_quotients[OF h, THEN conjunct2, THEN conjunct2] h
  show ?thesis by simp
qed

text \<open>
  Claim C2 says that the total is the sum of base price, marketplace fee and royalty
  fee, all three of them non-negative integers. At the price 1, with no royalty, neither
  the marketplace fee nor the total is an integer.
\<close>

theorem fee_and_total_not_integers:
  "\<not> isInteger (marketPlaceFee (Fin 1)) \<and> \<not> isInteger (getTotalPrice (Fin 1) (Fin 0) None)"
  unfolding marketPlaceFee_1 getTotalPrice_1 by code_simp

text \<open>
  Claim C2, amended: for a non-negative price and a non-negative rate, the total is the
  price plus the royalty term plus the marketplace fee, added in this order in double
  arithmetic, and the price, both fee terms and the total are non-negative numbers.
\<close>

theorem getTotalPrice_sum_of_nonneg_terms:
  assumes "0 \<le> p" and "0 \<le> b"
  shows "getTotalPrice (Fin p) (Fin b) tokenStandard
           = add (add (Fin p) (royalty (Fin p) (Fin b) tokenStandard)) (marketPlaceFee (Fin p))
       \<and> nonneg (Fin p)
       \<and> nonneg (marketPlaceFee (Fin p))
       \<and> nonneg (royalty (Fin p) (Fin b) tokenStandard)
       \<and> nonneg (getTotalPrice (Fin p) (Fin b) tokenStandard)"
proof -
  have p: "nonneg (Fin p)" using assms(1) by (simp add: nonneg_def)
  have f: "nonneg (marketPlaceFee (Fin p))"
    unfolding marketPlaceFee_def TENSOR_FEE_BPS_def
    using assms(1) by (intro nonneg_div_10000 nonneg_mul_Fin) simp_all
  have r: "nonneg (royalty (Fin p) (Fin b) tokenStandard)"
  proof (cases "truthy tokenStandard")
    case True
    then show ?thesis
      unfolding royalty_def using assms by (auto intro!: nonneg_div_10000 nonneg_fl)
  next
    case False
    then show ?thesis by (simp add: royalty_def nonneg_def)
  qed
  have t: "nonneg (getTotalPrice (Fin p) (Fin b) tokenStandard)"
    unfolding getTotalPrice_def by (intro nonneg_add p f r)
  show ?thesis using p f r t by (simp add: getTotalPrice_def)
qed

theorem getTotalPrice_sum_of_nonneg_terms_witness:
  "(0::rat) \<le> 1000000 \<and> (0::rat) \<le> 500
   \<and> getTotalPrice (Fin 1000000) (Fin 500) (Some ''NonFungible'') = Fin 1065000
   \<and> nonneg (marketPlaceFee (Fin 1000000))
   \<and> nonneg (royalty (Fin 1000000) (Fin 500) (Some ''NonFungible''))"
  using getTotalPrice_sum_of_nonneg_terms[of 1000000 500 "Some ''NonFungible''"]
  by (simp add: royalty_1000000 marketPlaceFee_1000000 fl_numeral)

text \<open>
  Claim C4 says that without royalties the total is the price plus
  \<open>price * 150 / 10000\<close>, a truncating division in the specification. At the price 1 the
  total is the double next to 1.015, not 1.
\<close>

theorem total_not_price_plus_truncated_fee:
  "getTotalPrice (Fin 1) (Fin 0) None = Fin (4571153621781053 / 4503599627370496)
   \<and> getTotalPrice (Fin 1) (Fin 0) None \<noteq> Fin (of_int (1 + 1 * 150 div 10000))"
  by (simp add: getTotalPrice_1)

text \<open>
  Claim C4, amended: for a non-negative integer price (and rate) whose product with the
  rate is at most \<open>2^53\<close>, the royalty term is 0 without a token standard and
  \<open>price * royaltyBps / 10000\<close> rounded to the nearest double with one; without a token
  standard the total is the price plus the fee \<open>price * 150 / 10000\<close> rounded to the
  nearest double, the sum rounded again, and it is the integer
  \<open>price + price * 150 div 10000\<close> when \<open>price * 150\<close> is a multiple of 10000.
\<close>

theorem total_is_price_plus_rounded_fee:
  assumes "n * 150 \<le> 2 ^ 53" and "n * b \<le> 2 ^ 53"
  shows "royalty (Fin (of_nat n)) (Fin (of_nat b)) tokenStandard
           = (if truthy tokenStandard then fl (of_nat (n * b) / 10000) else Fin 0)
       \<and> (\<exists>f. fl (of_nat (n * 150) / 10000) = Fin f
              \<and> getTotalPrice (Fin (of_nat n)) royaltyBps None = fl (of_nat n + f))
       \<and> (10000 dvd n * 150 \<longrightarrow>
            getTotalPrice (Fin (of_nat n)) royaltyBps None
              = Fin (of_nat (n + n * 150 div 10000)))"
proof -
  have "n \<le> 2 ^ 53" using assms(1) by simp
  then have d: "is_double (Fin (of_nat n))" by (rule is_double_of_nat)
  have r: "royalty (Fin (of_nat n)) (Fin (of_nat b)) tokenStandard
           = (if truthy tokenStandard then fl (of_nat (n * b) / 10000) else Fin 0)"
    using royalty_of_nat[OF assms(2)] by (simp add: royalty_def)
  show ?thesis
    using r price_plus_fee_of_nat[OF assms(1)] price_plus_fee_dvd[OF assms(1)]
    by (simp add: getTotalPrice_no_tokenStandard[OF d])
qed

theorem total_is_price_plus_rounded_fee_witness:
  "(1000000::nat) * 150 \<le> 2 ^ 53 \<and> (1000000::nat) * 500 \<le> 2 ^ 53
   \<and> (10000::nat) dvd 1000000 * 150
   \<and> royalty (Fin 1000000) (Fin 500) None = Fin 0
   \<and> royalty (Fin 1000000) (Fin 500) (Some ''NonFungible'') = Fin 50000
   \<and> getTotalPrice (Fin 1000000) (Fin 0) None = Fin 1015000
   \<and> getTotalPrice (Fin 1) (Fin 0) None = Fin (4571153621781053 / 4503599627370496)"
proof -
  have h: "(1000000::nat) * 150 \<le> 2 ^ 53" "(1000000::nat) * 500 \<le> 2 ^ 53" by simp_all
  have k: "(1::nat) * 150 \<le> 2 ^ 53" "(1::nat) * 0 \<le> 2 ^ 53" by simp_all
  have a: "royalty (Fin 1000000) (Fin 500) None = Fin 0"
    using total_is_price_plus_rounded_fee[OF h, of None, THEN conjunct1]
    by (simp add: truthy_def)
  have b: "royalty (Fin 1000000) (Fin 500) (Some ''NonFungible'') = Fin 50000"
    using total_is_price_plus_rounded_fee[OF h, of "Some ''NonFungible''", THEN conjunct1]
    by (simp add: truthy_def fl_numeral)
  have c: "getTotalPrice (Fin 1000000) (Fin 0) None = Fin 1015000"
    using total_is_price_plus_rounded_fee[OF h, of None "Fin 0", THEN conjunct2, THEN conjunct2]
    by simp
  obtain f where f: "fl (of_nat (1 * 150) / 10000) = Fin f"
    and t: "getTotalPrice (Fin (of_nat 1)) (Fin 0) None = fl (of_nat 1 + f)"
    using total_is_price_plus_rounded_fee[OF k, of None "Fin 0", THEN conjunct2, THEN conjunct1]
    by blast
  have f': "f = 1080863910568919 / 72057594037927936" using f by (simp add: fl_3_200)
  have d: "getTotalPrice (Fin 1) (Fin 0) None = Fin (4571153621781053 / 4503599627370496)"
    using t[unfolded f'] by (simp add: fl_1_plus_fee)
  show ?thesis using h a b c d by simp
qed

text \<open>
  Claim C5: the buy flow calls \<open>getTotalPrice\<close> with two arguments, so the token
  standard is undefined: for every item that is found and listed, the royalty term is
  0 and the price handed to \<open>getNftBuyTransaction\<close> is the listed price \<open>p\<close> plus
  \<open>p * 150 / 10000\<close>, whatever \<open>sellRoyaltyFeeBPS\<close> is; for a listed price that is a
  natural number \<open>n\<close> this is \<open>n\<close> plus the rounded quotient \<open>n * 150 / 10000\<close>,
  rounded.
\<close>

theorem buy_flow_ignores_royalty:
  assumes "getLatestBlockhash connection = (Inr res, connection')"
    and "getNftInfo api mint = Inr (Some itemDetails)"
    and "listing itemDetails = Some l"
  shows "createBuyNftTransaction api connection mint buyer =
           (getNftBuyTransaction api
              \<lparr>ownerAddress = seller l, buyerAddress = buyer,
               orderPrice = add (parseInt (listingPrice l))
                                (divide_num (mul (parseInt (listingPrice l)) (Fin 150))
                                            (Fin 10000)),
               latestBlockhash = blockhash res, mintAddress = mint\<rparr>,
            connection')
       \<and> royalty (parseInt (listingPrice l)) (sellRoyaltyFeeBPS itemDetails) None = Fin 0
       \<and> (parseInt (listingPrice l) = Fin (of_nat n) \<and> n * 150 \<le> 2 ^ 53 \<longrightarrow>
            (\<exists>f. fl (of_nat (n * 150) / 10000) = Fin f
                \<and> add (parseInt (listingPrice l))
                       (divide_num (mul (parseInt (listingPrice l)) (Fin 150)) (Fin 10000))
                    = fl (of_nat n + f)))"
proof -
  have a: "createBuyNftTransaction api connection mint buyer =
           (getNftBuyTransaction api
              \<lparr>ownerAddress = seller l, buyerAddress = buyer,
               orderPrice = add (parseInt (listingPrice l))
                                (divide_num (mul (parseInt (listingPrice l)) (Fin 150))
                                            (Fin 10000)),
               latestBlockhash = blockhash res, mintAddress = mint\<rparr>,
            connection')"
    using assms
    by (simp add: createBuyNftTransaction_def getTotalPrice_no_tokenStandard is_double_parseInt)
  have b: "royalty (parseInt (listingPrice l)) (sellRoyaltyFeeBPS itemDetails) None = Fin 0"
    by (simp add: royalty_def truthy_def)
  show ?thesis using a b price_plus_fee_of_nat[of n] by auto
qed

theorem buy_flow_ignores_royalty_witness:
  "getLatestBlockhash sample_connection =
     (Inr \<lparr>blockhash = ''EkSnNWid2cvwEVnVx9aBqawnmiCNiDgp3gUdkDPTKN1N'', lastValidBlockHeight = 3090\<rparr>,
      tl sample_connection)
   \<and> getNftInfo sample_api sample_mint = Inr (Some sample_item)
   \<and> listing sample_item = Some \<lparr>listingPrice = str ''1000000'', seller = sample_account\<rparr>
   \<and> sellRoyaltyFeeBPS sample_item = Fin 500
   \<and> parseInt (str ''1000000'') = Fin (of_nat 1000000) \<and> (1000000::nat) * 150 \<le> 2 ^ 53
   \<and> createBuyNftTransaction sample_api sample_connection sample_mint sample_account =
       (Inr (Some ''buy 7DVeeik8cDUvHgqrTetG6fcDUHHZ8rW7dFHp1SsohKML for 1015000''),
        tl sample_connection)"
proof -
  have a: "getNftInfo sample_api sample_mint = Inr (Some sample_item)"
    by (simp add: sample_api_def)
  have b: "listing sample_item = Some \<lparr>listingPrice = str ''1000000'', seller = sample_account\<rparr>"
    by (simp add: sample_item_def)
  have c: "sellRoyaltyFeeBPS sample_item = Fin 500" by (simp add: sample_item_def)
  have p: "parseInt (str ''1000000'') = Fin (of_nat 1000000)" by (simp add: parseInt_1000000)
  note t = buy_flow_ignores_royalty[OF getLatestBlockhash_sample a b, of sample_account 1000000]
  obtain f where f: "fl (of_nat (1000000 * 150) / 10000) = Fin f"
    and e: "add (parseInt (str ''1000000''))
                (divide_num (mul (parseInt (str ''1000000'')) (Fin 150)) (Fin 10000))
              = fl (of_nat 1000000 + f)"
    using t p by auto
  have f': "f = 15000" using f by (simp add: fl_numeral)
  have e': "add (parseInt (str ''1000000''))
                (divide_num (mul (parseInt (str ''1000000'')) (Fin 150)) (Fin 10000))
              = Fin 1015000"
    using e[unfolded f'] by (simp add: fl_numeral)
  have "createBuyNftTransaction sample_api sample_connection sample_mint sample_account =
       (Inr (Some ''buy 7DVeeik8cDUvHgqrTetG6fcDUHHZ8rW7dFHp1SsohKML for 1015000''),
        tl sample_connection)"
    using t[THEN conjunct1]
    by (simp add: e' sample_api_def showNumber_1015000 sample_mint_def)
  then show ?thesis using getLatestBlockhash_sample a b c p by simp
qed

section \<open>The offer amount\<close>

text \<open>
  Claim C7 says that the conversion of an offer to lamports fails for every input that
  is not a finite, non-negative number. The handler only tests \<open>isNaN\<close>: the offer
  \<open>-1\<close> parses to \<open>-1\<close>, becomes \<open>-1000000000\<close> lamports and is handed to
  \<open>placeNftBid\<close>; with an API that answers, the response is the transaction.
\<close>

theorem negative_offer_not_rejected:
  "parseFloat (str ''-1'') = Fin (- 1)
   \<and> mul (Fin (- 1)) LAMPORTS_PER_SOL = Fin (- 1000000000)
   \<and> fst (postOffer sample_api sample_connection sample_mint (str ''-1'') (Some sample_account))
       = ActionPostResponse ''bid -1000000000 on 7DVeeik8cDUvHgqrTetG6fcDUHHZ8rW7dFHp1SsohKML''"
proof -
  have n: "str ''-1'' \<noteq> []" by (simp add: str_def)
  have i: "sample_mint \<noteq> []" by (simp add: sample_mint_def)
  show ?thesis
    using n i
    by (simp add: parseFloat_minus_1 mul_minus_1_LAMPORTS postOffer_def isNaN_def Let_def
        sample_api_def getLatestBlockhash_sample showNumber_minus sample_item_def)
      (simp add: sample_mint_def)
qed

text \<open>
  Claim C7, amended: the handler multiplies the parsed offer by \<open>10^9\<close>
  (\<open>LAMPORTS_PER_SOL\<close>) and rejects, with status 400 and the message "Offer amount is
  not a valid number", exactly the offers that are empty or parse to \<open>NaN\<close>; every
  other offer, negative and infinite ones too, reaches \<open>placeNftBid\<close> as the price, and
  the response is the transaction unless the API fails or returns \<open>null\<close> or the empty
  string. The offer \<open>1.5\<close> yields 1500000000. (The item is found and the blockhash is
  fetched.)
\<close>

theorem postOffer_amount_check:
  assumes "itemId \<noteq> []"
    and "body = Some account"
    and "getNftInfo api itemId = Inr (Some itemDetails)"
    and "getLatestBlockhash connection = (Inr res, connection')"
  shows "postOffer api connection itemId offerAmountParam body =
           (if offerAmountParam = [] \<or> parseFloat offerAmountParam = NaN
            then (ActionError 400 ''Offer amount is not a valid number'', connection)
            else (case placeNftBid api
                         \<lparr>ownerAddress = owner itemDetails, buyerAddress = account,
                          orderPrice = mul (parseFloat offerAmountParam) LAMPORTS_PER_SOL,
                          latestBlockhash = blockhash res,
                          targetID = onchainId itemDetails\<rparr> of
                    Inr (Some transaction) \<Rightarrow>
                      if transaction = [] then failedToPrepare
                      else ActionPostResponse transaction
                  | _ \<Rightarrow> failedToPrepare,
                  connection'))
       \<and> parseFloat (str ''1.5'') = Fin (3 / 2)
       \<and> mul (Fin (3 / 2)) LAMPORTS_PER_SOL = Fin 1500000000"
  using assms mul_LAMPORTS_not_NaN[of "parseFloat offerAmountParam"]
  by (auto simp: postOffer_def isNaN_def Let_def parseFloat_1_5 mul_1_5_LAMPORTS
      split: sum.splits option.splits)

theorem postOffer_amount_check_witness:
  "sample_mint \<noteq> []
   \<and> getNftInfo sample_api sample_mint = Inr (Some sample_item)
   \<and> postOffer sample_api sample_connection sample_mint (str ''1.5'') (Some sample_account)
       = (ActionPostResponse ''bid 1500000000 on 7DVeeik8cDUvHgqrTetG6fcDUHHZ8rW7dFHp1SsohKML'',
          tl sample_connection)
   \<and> postOffer sample_api sample_connection sample_mint (0xA0 # str ''1.5'') (Some sample_account)
       = (ActionPostResponse ''bid 1500000000 on 7DVeeik8cDUvHgqrTetG6fcDUHHZ8rW7dFHp1SsohKML'',
          tl sample_connection)
   \<and> postOffer sample_api sample_connection sample_mint (str ''abc'') (Some sample_account)
       = (ActionError 400 ''Offer amount is not a valid number'', sample_connection)"
proof -
  have a: "sample_mint \<noteq> []" by (simp add: sample_mint_def)
  have b: "getNftInfo sample_api sample_mint = Inr (Some sample_item)"
    by (simp add: sample_api_def)
  have c: "owner sample_item = sample_account" "onchainId sample_item = sample_mint"
    by (simp_all add: sample_item_def)
  have d: "placeNftBid sample_api
             \<lparr>ownerAddress = sample_account, buyerAddress = sample_account,
              orderPrice = Fin 1500000000,
              latestBlockhash = ''EkSnNWid2cvwEVnVx9aBqawnmiCNiDgp3gUdkDPTKN1N'',
              targetID = sample_mint\<rparr>
           = Inr (Some ''bid 1500000000 on 7DVeeik8cDUvHgqrTetG6fcDUHHZ8rW7dFHp1SsohKML'')"
    by (simp add: sample_api_def showNumber_1500000000 sample_mint_def)
  have n: "str ''1.5'' \<noteq> []" "str ''abc'' \<noteq> []" by (simp_all add: str_def)
  show ?thesis
    using a b
      postOffer_amount_check[OF a refl b getLatestBlockhash_sample, of "str ''1.5''" sample_account]
      postOffer_amount_check[OF a refl b getLatestBlockhash_sample, of "0xA0 # str ''1.5''"
        sample_account]
      postOffer_amount_check[OF a refl b getLatestBlockhash_sample, of "str ''abc''" sample_account]
    by (simp add: parseFloat_1_5 parseFloat_nbsp_1_5 parseFloat_abc mul_1_5_LAMPORTS c d n)
qed

section \<open>The transfer builder\<close>

text \<open>
  Claim C3 says that the envelope holds exactly one instruction whose transfer amount is
  the input amount. \<open>createBuyNftTransaction\<close> of part_000 does not do that: it
  multiplies its input by \<open>LAMPORTS_PER_SOL\<close>, so that the price 1000000, which its
  caller passes in lamports, becomes a transfer of 1000000000000000 lamports, while
  \<open>createBidNftTransaction\<close> transfers 1000000 for the same input.
\<close>

theorem createBuyNftTransaction_transfer_multiplies_lamports:
  "createBuyNftTransaction_transfer sample_web3 sample_connection sample_mint sample_account
     (Fin 1000000)
     = (Inr \<lparr>payerKey = sample_account_key,
             recentBlockhash = ''EkSnNWid2cvwEVnVx9aBqawnmiCNiDgp3gUdkDPTKN1N'',
             instructions = [SystemTransfer \<lparr>fromPubkey = sample_account_key,
                                              toPubkey = sample_mint_key,
                                              lamports = Fin 1000000000000000\<rparr>]\<rparr>,
        tl sample_connection)
   \<and> createBidNftTransaction sample_web3 sample_connection sample_mint sample_account
       (Fin 1000000)
       = (Inr \<lparr>payerKey = sample_account_key,
               recentBlockhash = ''EkSnNWid2cvwEVnVx9aBqawnmiCNiDgp3gUdkDPTKN1N'',
               instructions = [SystemTransfer \<lparr>fromPubkey = sample_account_key,
                                                toPubkey = sample_mint_key,
                                                lamports = Fin 1000000\<rparr>]\<rparr>,
          tl sample_connection)"
proof -
  have m: "mul (Fin 1000000) LAMPORTS_PER_SOL = Fin 1000000000000000"
    by (simp add: LAMPORTS_PER_SOL_def fl_numeral)
  have a: "\<not> transferThrows sample_web3
               \<lparr>fromPubkey = sample_account_key, toPubkey = sample_mint_key,
                lamports = mul (Fin 1000000) LAMPORTS_PER_SOL\<rparr>"
    by (simp add: transferThrows_sample m isU64_numeral)
  have b: "\<not> transferThrows sample_web3
               \<lparr>fromPubkey = sample_account_key, toPubkey = sample_mint_key,
                lamports = Fin 1000000\<rparr>"
    by (simp add: transferThrows_sample isU64_numeral)
  show ?thesis
    using createBuyNftTransaction_transfer_ok[OF newPublicKey_sample_account
        newPublicKey_sample_mint a getLatestBlockhash_sample]
      createBidNftTransaction_ok[OF newPublicKey_sample_account newPublicKey_sample_mint b
        getLatestBlockhash_sample]
    by (simp add: m)
qed

text \<open>
  Claim C6 says that the builder takes the blockhash from its caller and does not fetch
  it. \<open>prepareTransaction\<close> has no such parameter: it asks the connection, which is one
  answer shorter afterwards, and a second call with the same arguments returns another
  blockhash.
\<close>

theorem prepareTransaction_fetches_blockhash:
  "prepareTransaction sample_connection [] (PublicKey [])
     = (Inr \<lparr>payerKey = PublicKey [],
             recentBlockhash = ''EkSnNWid2cvwEVnVx9aBqawnmiCNiDgp3gUdkDPTKN1N'',
             instructions = []\<rparr>,
        tl sample_connection)
   \<and> snd (prepareTransaction sample_connection [] (PublicKey [])) \<noteq> sample_connection
   \<and> fst (prepareTransaction (snd (prepareTransaction sample_connection [] (PublicKey [])))
            [] (PublicKey []))
       \<noteq> fst (prepareTransaction sample_connection [] (PublicKey []))"
  by (simp add: prepareTransaction_def sample_connection_def)

text \<open>
  Claim C6, amended: \<open>prepareTransaction\<close> fetches the latest blockhash from the
  connection itself, with one call of \<open>getLatestBlockhash\<close>; the envelope's
  \<open>recentBlockhash\<close> is the fetched value, taken as it is, and when the fetch fails no
  envelope is returned.
\<close>

theorem prepareTransaction_uses_fetched_blockhash:
  "prepareTransaction (Some res # rest) instrs payer
     = (Inr \<lparr>payerKey = payer, recentBlockhash = blockhash res, instructions = instrs\<rparr>, rest)
   \<and> prepareTransaction (None # rest) instrs payer = (Inl BlockhashUnavailable, rest)
   \<and> prepareTransaction [] instrs payer = (Inl BlockhashUnavailable, [])"
  by (simp add: prepareTransaction_def)

text \<open>
  Claim C8: an amount that is not a non-negative integer makes
  \<open>createBidNftTransaction\<close> fail, and no envelope is built. The function hands the
  amount to \<open>SystemProgram.transfer\<close>, which throws on every number that is not an
  unsigned integer of 64 bits; this happens before the blockhash is fetched, so the
  connection is as before. The error is \<open>InvalidAmount\<close>, unless a key is malformed:
  then the keys fail first, with \<open>InvalidAccount\<close>.
\<close>

theorem invalid_amount_fails:
  assumes "\<And>params. \<not> isU64 (lamports params) \<Longrightarrow> transferThrows lib params"
    and "\<not> (isInteger amount \<and> nonneg amount)"
  shows "createBidNftTransaction lib connection mint bidder amount
           = (Inl (if newPublicKey lib bidder = None \<or> newPublicKey lib mint = None
                   then InvalidAccount else InvalidAmount),
              connection)"
proof -
  have "\<not> isU64 amount" using assms(2) by (rule not_isU64)
  then have "\<And>payer recipient.
      transferThrows lib \<lparr>fromPubkey = payer, toPubkey = recipient, lamports = amount\<rparr>"
    using assms(1) by simp
  then show ?thesis
    by (auto simp: createBidNftTransaction_def SystemProgram_transfer_def split: option.splits)
qed

theorem invalid_amount_fails_witness:
  "transferThrows sample_web3 = (\<lambda>params. \<not> isU64 (lamports params))
   \<and> \<not> (isInteger (Fin (- 1)) \<and> nonneg (Fin (- 1)))
   \<and> \<not> (isInteger (Fin (3 / 2)) \<and> nonneg (Fin (3 / 2)))
   \<and> createBidNftTransaction sample_web3 sample_connection sample_mint sample_account (Fin (- 1))
       = (Inl InvalidAmount, sample_connection)
   \<and> createBidNftTransaction sample_web3 sample_connection sample_mint sample_account (Fin (3 / 2))
       = (Inl InvalidAmount, sample_connection)"
proof -
  have l: "\<And>params. \<not> isU64 (lamports params) \<Longrightarrow> transferThrows sample_web3 params"
    by (simp add: transferThrows_sample)
  have a: "\<not> (isInteger (Fin (- 1)) \<and> nonneg (Fin (- 1)))" by (simp add: nonneg_def)
  have b: "\<not> (isInteger (Fin (3 / 2)) \<and> nonneg (Fin (3 / 2)))" by code_simp
  have t: "transferThrows sample_web3 = (\<lambda>params. \<not> isU64 (lamports params))"
    by (simp add: sample_web3_def)
  show ?thesis
    using t a b invalid_amount_fails[of sample_web3 "Fin (- 1)", OF l a]
      invalid_amount_fails[of sample_web3 "Fin (3 / 2)", OF l b]
    by (simp add: newPublicKey_sample_account newPublicKey_sample_mint)
qed

text \<open>
  Claim C9: when the payer or the recipient is malformed, both builder functions fail
  with \<open>InvalidAccount\<close>, whatever the library would do with the transfer; no envelope is
  returned and the connection is as before (nothing was fetched).
\<close>

theorem malformed_account_fails_first:
  assumes "newPublicKey lib payerAddress = None \<or> newPublicKey lib mint = None"
  shows "createBuyNftTransaction_transfer lib connection mint payerAddress amount
           = (Inl InvalidAccount, connection)
       \<and> createBidNftTransaction lib connection mint payerAddress amount
           = (Inl InvalidAccount, connection)"
  using assms
  by (auto simp: createBuyNftTransaction_transfer_def createBidNftTransaction_def
      split: option.splits)

theorem malformed_account_fails_first_witness:
  "(newPublicKey sample_web3 sample_account = None
      \<or> newPublicKey sample_web3 ''not-an-address'' = None)
   \<and> createBuyNftTransaction_transfer sample_web3 sample_connection ''not-an-address''
        sample_account (Fin 1)
       = (Inl InvalidAccount, sample_connection)
   \<and> createBidNftTransaction sample_web3 sample_connection ''not-an-address''
        sample_account (Fin 1)
       = (Inl InvalidAccount, sample_connection)"
proof -
  have h: "newPublicKey sample_web3 sample_account = None
             \<or> newPublicKey sample_web3 ''not-an-address'' = None"
    by (simp add: newPublicKey_malformed)
  show ?thesis
    using h malformed_account_fails_first[OF h, of sample_connection "Fin 1"] by simp
qed

text \<open>
  Claim C10: \<open>getTotalPrice\<close> and the builder are deterministic. Two calls of
  \<open>getTotalPrice\<close> with the same arguments return the same total; two calls of a builder
  function with the same arguments whose fetches return the same blockhash (whatever
  else the two connections hold) return the same result.
\<close>

theorem pricing_and_builder_deterministic:
  assumes "fst (getLatestBlockhash c1) = Inr r1"
    and "fst (getLatestBlockhash c2) = Inr r2"
    and "blockhash r1 = blockhash r2"
    and "price1 = price2" and "royaltyBps1 = royaltyBps2" and "tokenStandard1 = tokenStandard2"
  shows "getTotalPrice price1 royaltyBps1 tokenStandard1
           = getTotalPrice price2 royaltyBps2 tokenStandard2
       \<and> fst (prepareTransaction c1 instrs payer) = fst (prepareTransaction c2 instrs payer)
       \<and> fst (createBuyNftTransaction_transfer lib c1 mint payerAddress amount)
           = fst (createBuyNftTransaction_transfer lib c2 mint payerAddress amount)
       \<and> fst (createBidNftTransaction lib c1 mint payerAddress amount)
           = fst (createBidNftTransaction lib c2 mint payerAddress amount)"
  using assms(4-6) prepareTransaction_same_blockhash[OF assms(1-3)]
  by (simp add: createBuyNftTransaction_transfer_def createBidNftTransaction_def
      split: option.splits)

theorem pricing_and_builder_deterministic_witness:
  "fst (getLatestBlockhash sample_connection)
     = Inr \<lparr>blockhash = ''EkSnNWid2cvwEVnVx9aBqawnmiCNiDgp3gUdkDPTKN1N'', lastValidBlockHeight = 3090\<rparr>
   \<and> fst (getLatestBlockhash
            [Some \<lparr>blockhash = ''EkSnNWid2cvwEVnVx9aBqawnmiCNiDgp3gUdkDPTKN1N'', lastValidBlockHeight = 4000\<rparr>])
       = Inr \<lparr>blockhash = ''EkSnNWid2cvwEVnVx9aBqawnmiCNiDgp3gUdkDPTKN1N'', lastValidBlockHeight = 4000\<rparr>
   \<and> getTotalPrice (Fin 1000000) (Fin 500) None = getTotalPrice (Fin 1000000) (Fin 500) None
   \<and> fst (createBidNftTransaction sample_web3 sample_connection sample_mint sample_account (Fin 5))
       = fst (createBidNftTransaction sample_web3
                [Some \<lparr>blockhash = ''EkSnNWid2cvwEVnVx9aBqawnmiCNiDgp3gUdkDPTKN1N'', lastValidBlockHeight = 4000\<rparr>]
                sample_mint sample_account (Fin 5))
   \<and> fst (createBuyNftTransaction_transfer sample_web3 sample_connection sample_mint
            sample_account (Fin 5))
       = fst (createBuyNftTransaction_transfer sample_web3
                [Some \<lparr>blockhash = ''EkSnNWid2cvwEVnVx9aBqawnmiCNiDgp3gUdkDPTKN1N'', lastValidBlockHeight = 4000\<rparr>]
                sample_mint sample_account (Fin 5))"
proof -
  have a: "fst (getLatestBlockhash sample_connection)
     = Inr \<lparr>blockhash = ''EkSnNWid2cvwEVnVx9aBqawnmiCNiDgp3gUdkDPTKN1N'', lastValidBlockHeight = 3090\<rparr>"
    by (simp add: sample_connection_def)
  have b: "fst (getLatestBlockhash
            [Some \<lparr>blockhash = ''EkSnNWid2cvwEVnVx9aBqawnmiCNiDgp3gUdkDPTKN1N'', lastValidBlockHeight = 4000\<rparr>])
       = Inr \<lparr>blockhash = ''EkSnNWid2cvwEVnVx9aBqawnmiCNiDgp3gUdkDPTKN1N'', lastValidBlockHeight = 4000\<rparr>"
    by simp
  have c: "blockhash \<lparr>blockhash = ''EkSnNWid2cvwEVnVx9aBqawnmiCNiDgp3gUdkDPTKN1N'', lastValidBlockHeight = 3090\<rparr>
     = blockhash \<lparr>blockhash = ''EkSnNWid2cvwEVnVx9aBqawnmiCNiDgp3gUdkDPTKN1N'', lastValidBlockHeight = 4000\<rparr>"
    by simp
  show ?thesis
    using a b pricing_and_builder_deterministic[OF a b c refl refl refl,
        of "Fin 1000000" "Fin 500" None "[]" "PublicKey []" sample_web3 sample_mint
          sample_account "Fin 5"]
    by blast
qed

end
